theory Spec2Isabelle
  imports Complex_Main "HOL-Library.Sublist"
begin

section \<open>JavaScript values\<close>

text \<open>
  The frontend is \<^verbatim>\<open>src/src/app.js\<close>. The file holds two revisions of the script, one
  after the other; the functions modelled here read the same in both, except
  \<^verbatim>\<open>checkFirstTimeSetup\<close>, \<^verbatim>\<open>showFirstTimeCredentials\<close> and \<^verbatim>\<open>resetApplication\<close>, which
  only the later revision has, and \<^verbatim>\<open>init\<close>, which is the later revision's.

  The script reads fields of parsed JSON bodies and tests them with JavaScript's
  truthiness, so the values are modelled dynamically. \<open>JObj\<close> lists the members of an
  object in the order of the JSON text. Numbers are the safe integers, those of magnitude
  at most \<open>2 ^ 53 - 1\<close>: a double holds each of them exactly and prints it digit by digit.
  Fractions and arrays are left out: no function below looks inside either.
\<close>

typedef safe_integer = "{n :: int. \<bar>n\<bar> \<le> 9007199254740991}"
  morphisms int_of SafeInteger
  by (intro exI [of _ 0]) simp

datatype jsval =
    JUndefined
  | JNull
  | JBool bool
  | JNum safe_integer
  | JStr string
  | JObj "(string \<times> jsval) list"

text \<open>ToBoolean: the test of \<^verbatim>\<open>if (v)\<close>, \<^verbatim>\<open>a && b\<close> and \<^verbatim>\<open>a || b\<close>.\<close>

fun truthy :: "jsval \<Rightarrow> bool" where
  "truthy JUndefined = False"
| "truthy JNull = False"
| "truthy (JBool b) = b"
| "truthy (JNum n) = (int_of n \<noteq> 0)"
| "truthy (JStr s) = (s \<noteq> '''')"
| "truthy (JObj fs) = True"

text \<open>\<^verbatim>\<open>a || b\<close>\<close>

definition js_or :: "jsval \<Rightarrow> jsval \<Rightarrow> jsval" where
  "js_or a b = (if truthy a then a else b)"

definition nullish :: "jsval \<Rightarrow> bool" where
  "nullish v = (v = JUndefined \<or> v = JNull)"

text \<open>
  The property read \<^verbatim>\<open>v.k\<close> of a value that is not nullish; a missing member reads as
  \<^verbatim>\<open>undefined\<close>, and JSON.parse keeps the last of a repeated key. On a nullish value the
  read throws a TypeError: every caller below tests \<open>nullish\<close> first and takes its catch
  branch there.
\<close>

fun prop_of :: "jsval \<Rightarrow> string \<Rightarrow> jsval" where
  "prop_of (JObj fs) k = (case map_of (rev fs) k of Some v \<Rightarrow> v | None \<Rightarrow> JUndefined)"
| "prop_of v k = JUndefined"

text \<open>Decimal numerals; \<open>digit_char\<close> is applied to digits, numbers below ten, only.\<close>

definition digit_char :: "nat \<Rightarrow> char" where
  "digit_char d = ''0123456789'' ! d"

function show_nat :: "nat \<Rightarrow> string" where
  "show_nat n = (if n < 10 then [digit_char n] else show_nat (n div 10) @ [digit_char (n mod 10)])"
  by pat_completeness auto
termination
  by (relation "measure id") auto

declare show_nat.simps [simp del]

definition show_int :: "int \<Rightarrow> string" where
  "show_int i = (if i < 0 then CHR ''-'' # show_nat (nat (- i)) else show_nat (nat i))"

text \<open>ToString: template literals, string concatenation, \<^verbatim>\<open>localStorage.setItem\<close>.\<close>

fun ToString :: "jsval \<Rightarrow> string" where
  "ToString JUndefined = ''undefined''"
| "ToString JNull = ''null''"
| "ToString (JBool b) = (if b then ''true'' else ''false'')"
| "ToString (JNum n) = show_int (int_of n)"
| "ToString (JStr s) = s"
| "ToString (JObj fs) = ''[object Object]''"

text \<open>
  \<^verbatim>\<open>String.prototype.trim\<close>. A string is a list of characters with codes below 256, the
  Latin-1 part of JavaScript's code units; the white space stripped is what JavaScript's
  WhiteSpace and LineTerminator have there: TAB, LF, VT, FF, CR, SP and NBSP.
\<close>

definition is_space :: "char \<Rightarrow> bool" where
  "is_space c =
     (c \<in> set [CHR 0x09, CHR 0x0A, CHR 0x0B, CHR 0x0C, CHR 0x0D, CHR 0x20, CHR 0xA0])"

definition trim :: "string \<Rightarrow> string" where
  "trim s = rev (dropWhile is_space (rev (dropWhile is_space s)))"

text \<open>A thrown value: the constructor and its message.\<close>

datatype js_error = Error string | TypeError string | SyntaxError string


text \<open>
  What reading member \<open>k\<close> of \<^verbatim>\<open>null\<close> or \<^verbatim>\<open>undefined\<close> throws. The wording is the
  engine's; this is V8's, with the member's name in single quotes.
\<close>

definition null_read :: "jsval \<Rightarrow> string \<Rightarrow> js_error" where
  "null_read v k =
     TypeError (''Cannot read properties of '' @ ToString v @ '' (reading '' @ [CHR 0x27] @ k
                @ [CHR 0x27] @ '')'')"


section \<open>HTTP as the frontend sees it\<close>

text \<open>
  A request as handed to \<^verbatim>\<open>fetch\<close>. The headers are the init object's \<^verbatim>\<open>headers\<close>
  (a JavaScript object, so a map from names to values); the body is the value given to
  \<^verbatim>\<open>JSON.stringify\<close>, not its text.
\<close>

record request =
  url :: string
  req_method :: string
  headers :: "string \<Rightarrow> string option"
  body :: "jsval option"

text \<open>
  A response: its status and what \<^verbatim>\<open>response.json()\<close> gives (\<open>Inl\<close>: the body is not
  JSON and the call rejects with that error).
\<close>

record response =
  status :: nat
  json :: "js_error + jsval"



text \<open>How an awaited \<^verbatim>\<open>fetch\<close> settles.\<close>

datatype fetch_result = Resolved response | Rejected js_error


section \<open>The frontend's state\<close>

text \<open>The \<^verbatim>\<open>state\<close> object.\<close>

record app_state =
  selectedFilePath :: jsval
  lastCID :: jsval
  isWalletVerified :: bool
  authToken :: jsval
  username :: jsval

definition initial_state :: app_state where
  "initial_state =
     \<lparr>selectedFilePath = JNull, lastCID = JNull, isWalletVerified = False,
      authToken = JNull, username = JNull\<rparr>"

text \<open>
  The part of the document the login code writes: the fields of \<^verbatim>\<open>loginElements\<close> it
  assigns, the two status indicators of \<^verbatim>\<open>checkHealth\<close>, and the elements appended to the
  body, each as the markup assigned to its \<^verbatim>\<open>innerHTML\<close>. The HTML is not part of the
  sources; the elements looked up at load time are taken to exist, and the value of an
  input to be the string written to it.
\<close>

record dom_state =
  loginScreen_display :: string
  mainApp_display :: string
  usernameInput_value :: string
  passwordInput_value :: string
  loginResult_textContent :: string
  loginResult_className :: string
  userInfo_textContent :: string
  ipfsStatus_connected :: "bool option"
  solanaStatus_connected :: "bool option"
  modals :: "string list"

text \<open>
  The effects the code has on the world outside its own variables, in the order they
  happen: requests handed to \<^verbatim>\<open>fetch\<close>, writes to \<^verbatim>\<open>localStorage\<close>, dialogs, console
  errors, listener registration and the page reload.
\<close>

datatype event =
    PreventDefault
  | Fetch request
  | SetItem string string
  | RemoveItem string
  | ConsoleError string
  | Confirm string
  | Prompt string
  | Alert string
  | Reload
  | LoginListeners
  | MainListeners
  | ModalListener

record world =
  state :: app_state
  localStorage :: "string \<Rightarrow> string option"
  page :: dom_state
  trace :: "event list"

definition emit :: "event \<Rightarrow> world \<Rightarrow> world" where
  "emit e w = w\<lparr>trace := trace w @ [e]\<rparr>"

definition setItem :: "string \<Rightarrow> string \<Rightarrow> world \<Rightarrow> world" where
  "setItem k v w = emit (SetItem k v) (w\<lparr>localStorage := (localStorage w)(k \<mapsto> v)\<rparr>)"

definition removeItem :: "string \<Rightarrow> world \<Rightarrow> world" where
  "removeItem k w = emit (RemoveItem k) (w\<lparr>localStorage := (localStorage w)(k := None)\<rparr>)"

definition getItem :: "string \<Rightarrow> world \<Rightarrow> jsval" where
  "getItem k w = (case localStorage w k of None \<Rightarrow> JNull | Some v \<Rightarrow> JStr v)"

text \<open>
  A freshly loaded page: the script's \<^verbatim>\<open>state\<close> literal, a document nothing has been
  written to yet (an empty string stands for "as the HTML and the style sheet have it"),
  and the \<^verbatim>\<open>localStorage\<close> and the history of effects, which outlive the load.
\<close>

definition initial_dom :: dom_state where
  "initial_dom =
     \<lparr>loginScreen_display = '''', mainApp_display = '''', usernameInput_value = '''',
      passwordInput_value = '''', loginResult_textContent = '''', loginResult_className = '''',
      userInfo_textContent = '''', ipfsStatus_connected = None, solanaStatus_connected = None,
      modals = []\<rparr>"

definition page_load :: "world \<Rightarrow> world" where
  "page_load w =
     \<lparr>state = initial_state, localStorage = localStorage w, page = initial_dom, trace = trace w\<rparr>"

definition first_load :: "(string \<Rightarrow> string option) \<Rightarrow> world" where
  "first_load ls = \<lparr>state = initial_state, localStorage = ls, page = initial_dom, trace = []\<rparr>"

text \<open>The user fills in the login form.\<close>

definition type_credentials :: "string \<Rightarrow> string \<Rightarrow> world \<Rightarrow> world" where
  "type_credentials u p w =
     w\<lparr>page := (page w)\<lparr>usernameInput_value := u, passwordInput_value := p\<rparr>\<rparr>"

text \<open>The requests of a trace, in order.\<close>

fun fetches :: "event list \<Rightarrow> request list" where
  "fetches [] = []"
| "fetches (Fetch r # es) = r # fetches es"
| "fetches (e # es) = fetches es"


section \<open>The frontend's functions\<close>

text \<open>
  An \<^verbatim>\<open>async\<close> function is modelled by the world it leaves once it has run to its end,
  given how each request it awaits settles (a \<open>fetch_result\<close> argument). A call that is not
  awaited is split at its first \<^verbatim>\<open>await\<close>: the part that runs inside the caller, and the
  part that runs when the request has settled.
\<close>

definition API_BASE :: string where
  "API_BASE = ''http://127.0.0.1:8765''"

definition showLoginError :: "jsval \<Rightarrow> world \<Rightarrow> world" where
  "showLoginError msg w =
     w\<lparr>page := (page w)\<lparr>loginResult_textContent := ToString msg,
                          loginResult_className := ''login-result error''\<rparr>\<rparr>"

definition checkHealth_request :: request where
  "checkHealth_request =
     \<lparr>url = API_BASE @ ''/health'', req_method = ''GET'', headers = Map.empty, body = None\<rparr>"

text \<open>\<^verbatim>\<open>checkHealth\<close> up to its \<^verbatim>\<open>await fetch\<close>.\<close>

definition checkHealth_start :: "world \<Rightarrow> world" where
  "checkHealth_start w = emit (Fetch checkHealth_request) w"

definition health_failed :: "world \<Rightarrow> world" where
  "health_failed w =
     (emit (ConsoleError ''Health check failed:'') w)
       \<lparr>page := (page w)\<lparr>ipfsStatus_connected := Some False,
                            solanaStatus_connected := Some False\<rparr>\<rparr>"

text \<open>\<^verbatim>\<open>checkHealth\<close> from the moment its request has settled.\<close>

definition checkHealth_settle :: "fetch_result \<Rightarrow> world \<Rightarrow> world" where
  "checkHealth_settle net w =
     (case net of
        Rejected err \<Rightarrow> health_failed w
      | Resolved r \<Rightarrow>
          (case json r of
             Inl err \<Rightarrow> health_failed w
           | Inr data \<Rightarrow>
               if nullish data then health_failed w
               else w\<lparr>page := (page w)
                      \<lparr>ipfsStatus_connected := Some (truthy (prop_of data ''ipfs_connected'')),
                       solanaStatus_connected :=
                         Some (truthy (prop_of data ''solana_connected''))\<rparr>\<rparr>))"

definition showMainApp :: "world \<Rightarrow> world" where
  "showMainApp w =
     checkHealth_start
       (emit MainListeners
         (w\<lparr>page := (page w)
              \<lparr>loginScreen_display := ''none'',
               mainApp_display := ''block'',
               userInfo_textContent := ''Logged in as: '' @ ToString (username (state w))\<rparr>\<rparr>))"

definition showLoginScreen :: "world \<Rightarrow> world" where
  "showLoginScreen w =
     w\<lparr>page := (page w)
          \<lparr>loginScreen_display := ''flex'',
           mainApp_display := ''none'',
           usernameInput_value := '''',
           passwordInput_value := '''',
           loginResult_className := ''login-result''\<rparr>\<rparr>"

definition login_request :: "string \<Rightarrow> string \<Rightarrow> request" where
  "login_request u p =
     \<lparr>url = API_BASE @ ''/auth/login'', req_method = ''POST'',
      headers = [''Content-Type'' \<mapsto> ''application/json''],
      body = Some (JObj [(''username'', JStr u), (''password'', JStr p)])\<rparr>"

text \<open>The \<^verbatim>\<open>catch\<close> block of \<^verbatim>\<open>handleLogin\<close>.\<close>

definition login_catch :: "world \<Rightarrow> world" where
  "login_catch w =
     showLoginError (JStr ''Connection error. Please check if the server is running.'')
       (emit (ConsoleError ''Login error:'') w)"

definition handleLogin :: "fetch_result \<Rightarrow> world \<Rightarrow> world" where
  "handleLogin net w =
     (let w0 = emit PreventDefault w;
          user = trim (usernameInput_value (page w0));
          password = passwordInput_value (page w0)
      in if user = '''' \<or> password = '''' then
           showLoginError (JStr ''Please enter username and password'') w0
         else
           let w1 = emit (Fetch (login_request user password)) w0 in
           (case net of
              Rejected err \<Rightarrow> login_catch w1
            | Resolved resp \<Rightarrow>
                (case json resp of
                   Inl err \<Rightarrow> login_catch w1
                 | Inr data \<Rightarrow>
                     if nullish data then login_catch w1
                     else if truthy (prop_of data ''success'') then
                       (let w2 = w1\<lparr>state := (state w1)
                                   \<lparr>authToken := prop_of data ''token'',
                                    username := prop_of data ''username''\<rparr>\<rparr>;
                            w3 = setItem ''authToken'' (ToString (prop_of data ''token'')) w2;
                            w4 = setItem ''username'' (ToString (prop_of data ''username'')) w3
                        in showMainApp w4)
                     else
                       showLoginError (js_or (prop_of data ''error'') (JStr ''Login failed'')) w1)))"

definition logout_request :: "world \<Rightarrow> request" where
  "logout_request w =
     \<lparr>url = API_BASE @ ''/auth/logout'', req_method = ''POST'',
      headers = [''Authorization'' \<mapsto> ''Bearer '' @ ToString (authToken (state w))],
      body = None\<rparr>"

text \<open>\<^verbatim>\<open>handleLogout\<close> after its \<^verbatim>\<open>try\<close> statement: "Clear state" and \<^verbatim>\<open>showLoginScreen()\<close>.\<close>

definition logout_clear :: "world \<Rightarrow> world" where
  "logout_clear w =
     showLoginScreen
       (removeItem ''username''
         (removeItem ''authToken''
           (w\<lparr>state := (state w)\<lparr>authToken := JNull, username := JNull\<rparr>\<rparr>)))"

text \<open>
  \<^verbatim>\<open>handleLogout\<close> as far as it runs inside its caller: with a truthy token it hands the
  logout request to \<^verbatim>\<open>fetch\<close> and is suspended at the \<^verbatim>\<open>await\<close> (\<open>True\<close>); with none it
  meets no \<^verbatim>\<open>await\<close> and runs to its end (\<open>False\<close>).
\<close>

definition handleLogout_start :: "world \<Rightarrow> world \<times> bool" where
  "handleLogout_start w =
     (if truthy (authToken (state w)) then (emit (Fetch (logout_request w)) w, True)
      else (logout_clear w, False))"

text \<open>The rest of a suspended \<^verbatim>\<open>handleLogout\<close>, run when the logout request has settled.\<close>

definition handleLogout_settle :: "fetch_result \<Rightarrow> world \<Rightarrow> world" where
  "handleLogout_settle net w =
     logout_clear
       (case net of
          Rejected err \<Rightarrow> emit (ConsoleError ''Logout error:'') w
        | Resolved r \<Rightarrow> w)"

definition handleLogout :: "fetch_result \<Rightarrow> world \<Rightarrow> world" where
  "handleLogout net w =
     (case handleLogout_start w of
        (w1, True) \<Rightarrow> handleLogout_settle net w1
      | (w1, False) \<Rightarrow> w1)"

text \<open>The \<^verbatim>\<open>options\<close> argument of \<^verbatim>\<open>apiRequest\<close>; an absent \<^verbatim>\<open>headers\<close> is the empty map.\<close>

record options =
  opt_method :: "string option"
  opt_headers :: "string \<Rightarrow> string option"
  opt_body :: "jsval option"

definition api_request :: "string \<Rightarrow> options \<Rightarrow> world \<Rightarrow> request" where
  "api_request endpoint opts w =
     (let hs = [''Content-Type'' \<mapsto> ''application/json''] ++ opt_headers opts;
          hs' = (if truthy (authToken (state w))
                 then hs(''Authorization'' \<mapsto> ''Bearer '' @ ToString (authToken (state w)))
                 else hs)
      in \<lparr>url = API_BASE @ endpoint,
          req_method = (case opt_method opts of None \<Rightarrow> ''GET'' | Some m \<Rightarrow> m),
          headers = hs', body = opt_body opts\<rparr>)"

text \<open>
  \<^verbatim>\<open>apiRequest\<close>: what it returns or throws, the world at that moment, and whether the
  \<^verbatim>\<open>handleLogout()\<close> it called without \<^verbatim>\<open>await\<close> is still suspended.
\<close>

definition apiRequest ::
  "string \<Rightarrow> options \<Rightarrow> fetch_result \<Rightarrow> world \<Rightarrow> (js_error + response) \<times> world \<times> bool" where
  "apiRequest endpoint opts net w =
     (let w1 = emit (Fetch (api_request endpoint opts w)) w in
      case net of
        Rejected err \<Rightarrow> (Inl err, w1, False)
      | Resolved resp \<Rightarrow>
          if status resp = 401 then
            (case handleLogout_start w1 of
               (w2, pending) \<Rightarrow> (Inl (Error ''Session expired. Please login again.''), w2, pending))
          else (Inr resp, w1, False))"

definition checkExistingSession :: "world \<Rightarrow> world" where
  "checkExistingSession w =
     (let token = getItem ''authToken'' w;
          user = getItem ''username'' w
      in if truthy token \<and> truthy user then
           showMainApp (w\<lparr>state := (state w)\<lparr>authToken := token, username := user\<rparr>\<rparr>)
         else w)"

definition first_time_request :: request where
  "first_time_request =
     \<lparr>url = API_BASE @ ''/auth/first-time-check'', req_method = ''GET'',
      headers = Map.empty, body = None\<rparr>"

text \<open>
  The template literal \<^verbatim>\<open>showFirstTimeCredentials\<close> assigns to \<^verbatim>\<open>modal.innerHTML\<close>, line by
  line. Each of the two values is interpolated twice and as it is, nothing escaped: into
  the \<^verbatim>\<open>onclick\<close> attribute of its field, between single quotes, and into the field's text.
\<close>

definition modal_markup :: "string \<Rightarrow> string \<Rightarrow> string" where
  \<open>modal_markup user password =
     ''\<newline>'' @
     ''        <div style="\<newline>'' @
     ''            background: #FAFAFA;\<newline>'' @
     ''            border: 2px solid #EDEBE9;\<newline>'' @
     ''            padding: 40px;\<newline>'' @
     ''            max-width: 600px;\<newline>'' @
     ''            width: 90%;\<newline>'' @
     ''        ">\<newline>'' @
     ''            <div style="\<newline>'' @
     ''                padding-bottom: 20px;\<newline>'' @
     ''                border-bottom: 2px solid #0078D4;\<newline>'' @
     ''                margin-bottom: 24px;\<newline>'' @
     ''            ">\<newline>'' @
     ''                <h1 style="\<newline>'' @
     ''                    margin: 0;\<newline>'' @
     ''                    font-size: 20px;\<newline>'' @
     ''                    font-weight: 600;\<newline>'' @
     ''                    color: #323130;\<newline>'' @
     ''                ">Account Credentials</h1>\<newline>'' @
     ''            </div>\<newline>'' @
     ''            \<newline>'' @
     ''            <div style="margin-bottom: 20px;">\<newline>'' @
     ''                <p style="\<newline>'' @
     ''                    margin: 0;\<newline>'' @
     ''                    color: #605E5C;\<newline>'' @
     ''                    font-size: 14px;\<newline>'' @
     ''                    line-height: 1.5;\<newline>'' @
     ''                ">\<newline>'' @
     ''                    Your secure login credentials have been generated. Save them immediately in a secure location.\<newline>'' @
     ''                </p>\<newline>'' @
     ''            </div>\<newline>'' @
     ''            \<newline>'' @
     ''            <div style="\<newline>'' @
     ''                background: #FFFFFF;\<newline>'' @
     ''                border: 1px solid #EDEBE9;\<newline>'' @
     ''                padding: 20px;\<newline>'' @
     ''                margin: 20px 0;\<newline>'' @
     ''            ">\<newline>'' @
     ''                <div style="margin-bottom: 16px;">\<newline>'' @
     ''                    <label style="\<newline>'' @
     ''                        display: block;\<newline>'' @
     ''                        font-size: 13px;\<newline>'' @
     ''                        font-weight: 600;\<newline>'' @
     ''                        margin-bottom: 6px;\<newline>'' @
     ''                        color: #323130;\<newline>'' @
     ''                    ">USERNAME</label>\<newline>'' @
     ''                    <div style="\<newline>'' @
     ''                        font-family: 'Courier New', monospace;\<newline>'' @
     ''                        font-size: 14px;\<newline>'' @
     ''                        padding: 8px 12px;\<newline>'' @
     ''                        background: #FFFFFF;\<newline>'' @
     ''                        border: 1px solid #EDEBE9;\<newline>'' @
     ''                        cursor: pointer;\<newline>'' @
     ''                        color: #323130;\<newline>'' @
     ''                    " \<newline>'' @
     ''                    onclick="navigator.clipboard.writeText('' @ [CHR 0x27] @ user @ [CHR 0x27] @ ''); this.style.borderColor='#0078D4'; this.style.borderWidth='2px'; this.style.padding='7px 11px'; setTimeout(() => { this.style.borderColor='#EDEBE9'; this.style.borderWidth='1px'; this.style.padding='8px 12px'; }, 1000);"\<newline>'' @
     ''                    onmouseover="this.style.background='#F3F2F1'"\<newline>'' @
     ''                    onmouseout="this.style.background='#FFFFFF'">\<newline>'' @
     ''                        '' @ user @ ''\<newline>'' @
     ''                    </div>\<newline>'' @
     ''                </div>\<newline>'' @
     ''                \<newline>'' @
     ''                <div>\<newline>'' @
     ''                    <label style="\<newline>'' @
     ''                        display: block;\<newline>'' @
     ''                        font-size: 13px;\<newline>'' @
     ''                        font-weight: 600;\<newline>'' @
     ''                        margin-bottom: 6px;\<newline>'' @
     ''                        color: #323130;\<newline>'' @
     ''                    ">PASSWORD</label>\<newline>'' @
     ''                    <div style="\<newline>'' @
     ''                        font-family: 'Courier New', monospace;\<newline>'' @
     ''                        font-size: 14px;\<newline>'' @
     ''                        padding: 8px 12px;\<newline>'' @
     ''                        background: #FFFFFF;\<newline>'' @
     ''                        border: 1px solid #EDEBE9;\<newline>'' @
     ''                        cursor: pointer;\<newline>'' @
     ''                        word-break: break-all;\<newline>'' @
     ''                        color: #323130;\<newline>'' @
     ''                    " \<newline>'' @
     ''                    onclick="navigator.clipboard.writeText('' @ [CHR 0x27] @ password @ [CHR 0x27] @ ''); this.style.borderColor='#0078D4'; this.style.borderWidth='2px'; this.style.padding='7px 11px'; setTimeout(() => { this.style.borderColor='#EDEBE9'; this.style.borderWidth='1px'; this.style.padding='8px 12px'; }, 1000);"\<newline>'' @
     ''                    onmouseover="this.style.background='#F3F2F1'"\<newline>'' @
     ''                    onmouseout="this.style.background='#FFFFFF'">\<newline>'' @
     ''                        '' @ password @ ''\<newline>'' @
     ''                    </div>\<newline>'' @
     ''                </div>\<newline>'' @
     ''            </div>\<newline>'' @
     ''            \<newline>'' @
     ''            <div style="\<newline>'' @
     ''                background: #F3F2F1;\<newline>'' @
     ''                border-left: 3px solid #323130;\<newline>'' @
     ''                padding: 16px;\<newline>'' @
     ''                margin: 20px 0;\<newline>'' @
     ''            ">\<newline>'' @
     ''                <div style="\<newline>'' @
     ''                    font-weight: 600;\<newline>'' @
     ''                    margin-bottom: 8px;\<newline>'' @
     ''                    font-size: 13px;\<newline>'' @
     ''                    color: #323130;\<newline>'' @
     ''                ">Important Security Notice</div>\<newline>'' @
     ''                <ul style="\<newline>'' @
     ''                    margin: 0;\<newline>'' @
     ''                    padding-left: 20px;\<newline>'' @
     ''                    font-size: 13px;\<newline>'' @
     ''                    line-height: 1.6;\<newline>'' @
     ''                    color: #605E5C;\<newline>'' @
     ''                ">\<newline>'' @
     ''                    <li>These credentials will never be shown again</li>\<newline>'' @
     ''                    <li>Click any field above to copy to clipboard</li>\<newline>'' @
     ''                    <li>Store in a secure password manager</li>\<newline>'' @
     ''                    <li>Loss of credentials requires application reset</li>\<newline>'' @
     ''                </ul>\<newline>'' @
     ''            </div>\<newline>'' @
     ''            \<newline>'' @
     ''            <button id="credentials-saved-btn" style="\<newline>'' @
     ''                background: #0078D4;\<newline>'' @
     ''                color: white;\<newline>'' @
     ''                border: none;\<newline>'' @
     ''                padding: 8px 20px;\<newline>'' @
     ''                font-size: 14px;\<newline>'' @
     ''                font-weight: 600;\<newline>'' @
     ''                cursor: pointer;\<newline>'' @
     ''                width: 100%;\<newline>'' @
     ''                font-family: 'Inter', sans-serif;\<newline>'' @
     ''            " \<newline>'' @
     ''            onmouseover="this.style.background='#005A9E'" \<newline>'' @
     ''            onmouseout="this.style.background='#0078D4'">\<newline>'' @
     ''                I Have Saved These Credentials\<newline>'' @
     ''            </button>\<newline>'' @
     ''            \<newline>'' @
     ''            <p style="\<newline>'' @
     ''                margin: 16px 0 0 0;\<newline>'' @
     ''                font-size: 12px;\<newline>'' @
     ''                color: #605E5C;\<newline>'' @
     ''                text-align: center;\<newline>'' @
     ''            ">\<newline>'' @
     ''                No backup file is created. Save these credentials now or they are lost forever.\<newline>'' @
     ''            </p>\<newline>'' @
     ''        </div>\<newline>'' @
     ''    ''\<close>

text \<open>
  \<^verbatim>\<open>showFirstTimeCredentials\<close>: it appends the modal with that markup to the body, writes
  the two values into the login form, and then looks up the button of the modal to give it
  its click listener. The browser parses the markup, credentials included, and the parser
  is not modelled: whether \<^verbatim>\<open>document.getElementById('credentials-saved-btn')\<close> finds the
  button in the document so built is the argument \<open>found\<close> (it does when the credentials
  hold no character that HTML reads as markup). When it does not, the call on \<^verbatim>\<open>null\<close> throws, the modal
  and the form staying as written. The result is what is thrown, if anything, and the
  world.
\<close>

definition showFirstTimeCredentials ::
  "bool \<Rightarrow> jsval \<Rightarrow> jsval \<Rightarrow> world \<Rightarrow> js_error option \<times> world" where
  "showFirstTimeCredentials found user password w =
     (let w1 = w\<lparr>page := (page w)
                  \<lparr>modals := modals (page w) @ [modal_markup (ToString user) (ToString password)],
                   usernameInput_value := ToString user,
                   passwordInput_value := ToString password\<rparr>\<rparr>
      in if found then (None, emit ModalListener w1)
         else (Some (null_read JNull ''addEventListener''), w1))"

definition first_time_catch :: "world \<Rightarrow> world" where
  "first_time_catch w = emit (ConsoleError ''First-time check failed:'') w"

text \<open>
  \<^verbatim>\<open>checkFirstTimeSetup\<close>, given how its request settles and what the lookup of the modal's
  button finds.
\<close>

definition checkFirstTimeSetup :: "fetch_result \<Rightarrow> bool \<Rightarrow> world \<Rightarrow> world" where
  "checkFirstTimeSetup net found w =
     (let w1 = emit (Fetch first_time_request) w in
      case net of
        Rejected err \<Rightarrow> first_time_catch w1
      | Resolved resp \<Rightarrow>
          (case json resp of
             Inl err \<Rightarrow> first_time_catch w1
           | Inr data \<Rightarrow>
               if nullish data then first_time_catch w1
               else if truthy (prop_of data ''is_first_time'')
                     \<and> truthy (prop_of data ''username'')
                     \<and> truthy (prop_of data ''password'')
               then
                 (case showFirstTimeCredentials found (prop_of data ''username'')
                         (prop_of data ''password'') w1 of
                    (None, w2) \<Rightarrow> w2
                  | (Some err, w2) \<Rightarrow> first_time_catch w2)
               else w1))"

definition setupLoginListeners :: "world \<Rightarrow> world" where
  "setupLoginListeners w = emit LoginListeners w"

text \<open>
  \<^verbatim>\<open>init\<close>, run once per page load; its arguments are those of \<^verbatim>\<open>checkFirstTimeSetup\<close>.
\<close>

definition init :: "fetch_result \<Rightarrow> bool \<Rightarrow> world \<Rightarrow> world" where
  "init net found w =
     checkExistingSession (checkFirstTimeSetup net found (setupLoginListeners w))"









section \<open>formatBytes\<close>

text \<open>
  \<^verbatim>\<open>formatBytes\<close> on an integer argument. A JavaScript number is an IEEE 754 double; it is
  modelled by the real number it stands for, and an operation that rounds by the rounding
  written out. The argument is an integer that is a double, as every integer of magnitude
  up to \<open>2 ^ 53\<close> is.
\<close>

text \<open>
  Rounding to the nearest integer, a tie going to the even one: how the significand of a
  double is rounded.
\<close>

definition round_half_even :: "real \<Rightarrow> int" where
  "round_half_even y =
     (let f = \<lfloor>y\<rfloor>
      in if y - of_int f < 1 / 2 then f
         else if 1 / 2 < y - of_int f then f + 1
         else if even f then f else f + 1)"

text \<open>
  The exponent of the binade a real lies in, not below that of the subnormal numbers, and
  the distance between neighbouring doubles there: the significand has 53 bits.
\<close>

definition exponent :: "real \<Rightarrow> int" where
  "exponent x = max (- 1022) \<lfloor>log 2 \<bar>x\<bar>\<rfloor>"

definition ulp :: "real \<Rightarrow> real" where
  "ulp x = 2 powr (of_int (exponent x) - 52)"

text \<open>
  The double nearest to a real, ties to even: the result of an IEEE operation whose exact
  value is \<open>x\<close>. Results are finite here, of magnitude below \<open>2 ^ 1024\<close>: no quotient
  \<^verbatim>\<open>formatBytes\<close> forms overflows.
\<close>

definition to_double :: "real \<Rightarrow> real" where
  "to_double x = (if x = 0 then 0 else ulp x * of_int (round_half_even (x / ulp x)))"

text \<open>
  \<^verbatim>\<open>Math.log\<close> on a positive number. ECMAScript fixes \<^verbatim>\<open>Math.log(1)\<close> to be \<open>+0\<close> and
  leaves every other value "implementation-approximated": an approximation of the natural
  logarithm that the engine chooses. The engine's choice is the argument \<open>approx\<close>; its
  value at 1024, by which \<^verbatim>\<open>formatBytes\<close> divides, is taken not to be zero.
\<close>

definition Math_log :: "(real \<Rightarrow> real) \<Rightarrow> real \<Rightarrow> real" where
  "Math_log approx x = (if x = 1 then 0 else approx x)"

definition sizes :: "string list" where
  "sizes = [''Bytes'', ''KB'', ''MB'', ''GB'']"

text \<open>
  \<^verbatim>\<open>Math.floor(Math.log(bytes) / Math.log(k))\<close> with \<^verbatim>\<open>k = 1024\<close>: the quotient of the two
  logarithms is a double division, so it is rounded.
\<close>

definition unit_index :: "(real \<Rightarrow> real) \<Rightarrow> int \<Rightarrow> int" where
  "unit_index approx bytes =
     \<lfloor>to_double (Math_log approx (of_int bytes) / Math_log approx 1024)\<rfloor>"

text \<open>\<^verbatim>\<open>sizes[i]\<close> in a string concatenation: out of range it reads \<^verbatim>\<open>undefined\<close>.\<close>

definition sizes_at :: "int \<Rightarrow> string" where
  "sizes_at i = (if 0 \<le> i \<and> i < int (length sizes) then sizes ! nat i else ''undefined'')"

text \<open>
  \<^verbatim>\<open>parseFloat(x.toFixed(2))\<close> as the concatenation prints it, for \<open>0 \<le> x < 10 ^ 13\<close>
  (\<^verbatim>\<open>toFixed\<close> rounds the exact value of the double, and a decimal of at most 15 digits
  is printed as it was read): rounded to two decimals, a tie going up, trailing zeros
  dropped.
\<close>

definition fixed2 :: "real \<Rightarrow> string" where
  "fixed2 x =
     (let n = nat \<lfloor>x * 100 + 1 / 2\<rfloor>; fr = n mod 100
      in show_nat (n div 100)
         @ (if fr = 0 then ''''
            else ''.'' @ [digit_char (fr div 10)]
                 @ (if fr mod 10 = 0 then '''' else [digit_char (fr mod 10)])))"

text \<open>
  \<^verbatim>\<open>formatBytes\<close>. \<^verbatim>\<open>Math.pow(k, i)\<close> is the power of two itself, a double for every index
  up to 102, and the division by it is a double division. A negative argument makes
  \<^verbatim>\<open>Math.log\<close> give NaN, so both the number and the index are NaN.
\<close>

definition formatBytes :: "(real \<Rightarrow> real) \<Rightarrow> int \<Rightarrow> string" where
  "formatBytes approx bytes =
     (if bytes = 0 then ''0 Bytes''
      else if bytes < 0 then ''NaN undefined''
      else
        let i = unit_index approx bytes
        in fixed2 (to_double (of_int bytes / 1024 powr of_int i)) @ '' '' @ sizes_at i)"


section \<open>Observations on the frontend\<close>

text \<open>
  The login state the frontend returns to: no token and no username in \<^verbatim>\<open>state\<close>, neither
  key in \<^verbatim>\<open>localStorage\<close>, the login screen displayed and the main application hidden.
\<close>

definition logged_out :: "world \<Rightarrow> bool" where
  "logged_out w =
     (authToken (state w) = JNull \<and> username (state w) = JNull
      \<and> localStorage w ''authToken'' = None \<and> localStorage w ''username'' = None
      \<and> loginScreen_display (page w) = ''flex'' \<and> mainApp_display (page w) = ''none'')"

text \<open>
  The world once a \<^verbatim>\<open>handleLogout\<close> that was started (and is perhaps suspended) has run
  to its end, its logout request having settled as \<open>net\<close>.
\<close>

definition settled :: "fetch_result \<Rightarrow> world \<times> bool \<Rightarrow> world" where
  "settled net p = (if snd p then handleLogout_settle net (fst p) else fst p)"

text \<open>The effects a run added to the trace it started from.\<close>

definition added :: "world \<Rightarrow> world \<Rightarrow> event list" where
  "added w w' = drop (length (trace w)) (trace w')"

text \<open>
  The body of a response as \<^verbatim>\<open>data.success\<close>-style reads see it: the parsed value when
  there is one whose members can be read.
\<close>

definition readable :: "response \<Rightarrow> jsval option" where
  "readable resp =
     (case json resp of Inl err \<Rightarrow> None | Inr data \<Rightarrow> if nullish data then None else Some data)"

text \<open>The test of \<^verbatim>\<open>handleLogin\<close>: \<^verbatim>\<open>data.success\<close> is truthy.\<close>

definition login_accepted :: "response \<Rightarrow> bool" where
  "login_accepted resp =
     (case readable resp of None \<Rightarrow> False | Some data \<Rightarrow> truthy (prop_of data ''success''))"


text \<open>
  Successive page loads, each running \<^verbatim>\<open>init\<close> with its own first-time-check outcome:
  the modals they append, in order.
\<close>

fun shown :: "(fetch_result \<times> bool) list \<Rightarrow> world \<Rightarrow> string list" where
  "shown [] w = []"
| "shown ((net, found) # loads) w =
     (let w' = init net found (page_load w) in modals (page w') @ shown loads w')"





section \<open>The backend, modelled from the spec\<close>

text \<open>
  The backend (a Python process serving \<^verbatim>\<open>/auth/*\<close>) is not among the sources. Where a
  property needs it, it is the model below, written from sections 3, 4 and 6 of the
  specification. Its three constants are also those of the README kept in
  \<^verbatim>\<open>src/src/app.js\<close>: "5 failed login attempts = 15 minute lockout" and "24-hour token
  expiration". Time is in seconds.
\<close>

text \<open>Modelled from the spec: the error taxonomy of section 7, as far as it is used.\<close>

datatype auth_error = InvalidCredentials | LockedOut | Unauthorized

text \<open>Modelled from the spec: Session, "token, username, issued_at, expires_at" (the token
  is the key of the session table).\<close>

record session =
  session_username :: string
  issued_at :: nat
  expires_at :: nat

text \<open>Modelled from the spec: LoginAttemptCounter, "failure_count (integer \<ge> 0),
  locked_until (timestamp, nullable)".\<close>

record login_attempt_counter =
  failure_count :: nat
  locked_until :: "nat option"

text \<open>Modelled from the spec: the Password Hasher's digest, an ideal salted one-way hash
  (the salt and the plaintext it was made from), or a malformed digest.\<close>

datatype digest = Digest string string | Malformed

text \<open>Modelled from the spec: Identity, "username, password_hash, created_at".\<close>

record identity =
  id_username :: string
  password_hash :: digest
  created_at :: nat

text \<open>Modelled from the spec: the process-wide state of the Auth Gateway: the Credential
  Store (at most one Identity), the attempt counters keyed by identity, the session table.\<close>

record backend =
  credential :: "identity option"
  counters :: "string \<Rightarrow> login_attempt_counter"
  sessions :: "string \<Rightarrow> session option"

text \<open>Modelled from the spec: "fixed_ttl (24 hours)".\<close>

definition fixed_ttl :: nat where
  "fixed_ttl = 24 * 60 * 60"

text \<open>Modelled from the spec: "lockout_duration (15 minutes)".\<close>

definition lockout_duration :: nat where
  "lockout_duration = 15 * 60"

text \<open>Modelled from the spec: "a configured threshold (5)".\<close>

definition threshold :: nat where
  "threshold = 5"

text \<open>Modelled from the spec: "hash(plaintext) -> digest", with the salt it draws.\<close>

definition hash :: "string \<Rightarrow> string \<Rightarrow> digest" where
  "hash salt plaintext = Digest salt plaintext"

text \<open>Modelled from the spec: "verify(plaintext, digest) -> bool ... malformed digest:
  verification fails closed".\<close>

fun verify :: "string \<Rightarrow> digest \<Rightarrow> bool" where
  "verify plaintext (Digest salt p) = (plaintext = p)"
| "verify plaintext Malformed = False"

text \<open>Modelled from the spec: "is_locked(identity) -> bool: true iff locked_until is set
  and in the future".\<close>

definition is_locked :: "login_attempt_counter \<Rightarrow> nat \<Rightarrow> bool" where
  "is_locked c now = (case locked_until c of None \<Rightarrow> False | Some t \<Rightarrow> now < t)"

text \<open>Modelled from the spec: "record_failure(identity): increments failure_count; if it
  reaches a configured threshold (5), sets locked_until = now + lockout_duration (15
  minutes) and resets failure_count to 0 for the next window".\<close>

definition record_failure :: "login_attempt_counter \<Rightarrow> nat \<Rightarrow> login_attempt_counter" where
  "record_failure c now =
     (if threshold \<le> failure_count c + 1
      then \<lparr>failure_count = 0, locked_until = Some (now + lockout_duration)\<rparr>
      else c\<lparr>failure_count := failure_count c + 1\<rparr>)"

text \<open>Modelled from the spec: "record_success(identity): clears failure_count and
  locked_until".\<close>

definition record_success :: "login_attempt_counter \<Rightarrow> login_attempt_counter" where
  "record_success c = \<lparr>failure_count = 0, locked_until = None\<rparr>"

text \<open>Modelled from the spec: "issue(username) -> token: generates an unguessable random
  token, records Session with issued_at=now, expires_at=now+24h". The token drawn is an
  argument.\<close>

definition issue :: "backend \<Rightarrow> string \<Rightarrow> nat \<Rightarrow> string \<Rightarrow> backend" where
  "issue b user now tok =
     b\<lparr>sessions := (sessions b)
          (tok \<mapsto> \<lparr>session_username = user, issued_at = now, expires_at = now + fixed_ttl\<rparr>)\<rparr>"

text \<open>Modelled from the spec: "validate(token) -> Identity | invalid: looks up the
  Session; fails if absent or now >= expires_at; on success returns the associated
  username".\<close>

definition validate :: "backend \<Rightarrow> string \<Rightarrow> nat \<Rightarrow> auth_error + string" where
  "validate b tok now =
     (case sessions b tok of
        None \<Rightarrow> Inl Unauthorized
      | Some s \<Rightarrow> if expires_at s \<le> now then Inl Unauthorized else Inr (session_username s))"

text \<open>Modelled from the spec: "revoke(token): deletes the Session".\<close>

definition revoke :: "backend \<Rightarrow> string \<Rightarrow> backend" where
  "revoke b tok = b\<lparr>sessions := (sessions b)(tok := None)\<rparr>"

text \<open>Modelled from the spec: the credentials a login is checked against: the stored
  Identity's username, and its password through the Password Hasher.\<close>

definition credentials_ok :: "backend \<Rightarrow> string \<Rightarrow> string \<Rightarrow> bool" where
  "credentials_ok b user password =
     (case credential b of
        None \<Rightarrow> False
      | Some i \<Rightarrow> id_username i = user \<and> verify password (password_hash i))"

text \<open>Modelled from the spec: "login(username, password) -> token | error: fails with
  LockedOut if Rate Limiter reports locked; fails with InvalidCredentials if Password
  Hasher verification fails (and records the failure); on success, records success and
  returns a new Session token". The lockout check comes first (section 4.3).\<close>

definition login :: "backend \<Rightarrow> string \<Rightarrow> string \<Rightarrow> nat \<Rightarrow> string \<Rightarrow> (auth_error + string) \<times> backend" where
  "login b user password now tok =
     (if is_locked (counters b user) now then (Inl LockedOut, b)
      else if credentials_ok b user password then
        (Inr tok,
         issue (b\<lparr>counters := (counters b)(user := record_success (counters b user))\<rparr>)
           user now tok)
      else
        (Inl InvalidCredentials,
         b\<lparr>counters := (counters b)(user := record_failure (counters b user) now)\<rparr>))"

text \<open>Modelled from the spec: "logout(token): revokes the session; idempotent".\<close>

definition logout :: "backend \<Rightarrow> string \<Rightarrow> backend" where
  "logout b tok = revoke b tok"

text \<open>Modelled from the spec: "authenticate(token) -> Identity | Unauthorized", the guard
  in front of the protected operations.\<close>

definition authenticate :: "backend \<Rightarrow> string \<Rightarrow> nat \<Rightarrow> auth_error + string" where
  "authenticate b tok now = validate b tok now"

text \<open>Modelled from the spec: a run of login attempts for one identity, each with its
  password, its time and the token drawn for it: the results in order, and the state left.\<close>

fun attempts ::
  "backend \<Rightarrow> string \<Rightarrow> (string \<times> nat \<times> string) list \<Rightarrow> (auth_error + string) list \<times> backend" where
  "attempts b user [] = ([], b)"
| "attempts b user ((password, now, tok) # rest) =
     (case login b user password now tok of
        (r, b1) \<Rightarrow> (case attempts b1 user rest of (rs, b2) \<Rightarrow> (r # rs, b2)))"

text \<open>Modelled from the spec: the calls of the Auth Gateway that change its state.\<close>

datatype gateway_call =
    Login string string nat string
  | Logout string

text \<open>Modelled from the spec: the state after a sequence of such calls.\<close>

fun gateway :: "backend \<Rightarrow> gateway_call list \<Rightarrow> backend" where
  "gateway b [] = b"
| "gateway b (Login user password now tok # calls) =
     gateway (snd (login b user password now tok)) calls"
| "gateway b (Logout tok # calls) = gateway (logout b tok) calls"

text \<open>Modelled from the spec: the tokens a sequence of calls draws for its logins.\<close>

fun drawn :: "gateway_call list \<Rightarrow> string set" where
  "drawn [] = {}"
| "drawn (Login user password now tok # calls) = insert tok (drawn calls)"
| "drawn (Logout tok # calls) = drawn calls"

text \<open>Modelled from the spec: the tokens a sequence of calls logs out.\<close>

fun logged_out_tokens :: "gateway_call list \<Rightarrow> string set" where
  "logged_out_tokens [] = {}"
| "logged_out_tokens (Login user password now tok # calls) = logged_out_tokens calls"
| "logged_out_tokens (Logout tok # calls) = insert tok (logged_out_tokens calls)"

text \<open>Modelled from the spec: "POST /auth/logout: header bearer token -> {success}": the
  token of an \<^verbatim>\<open>Authorization: Bearer\<close> header.\<close>

definition bearer_token :: "request \<Rightarrow> string option" where
  "bearer_token r =
     (case headers r ''Authorization'' of
        None \<Rightarrow> None
      | Some h \<Rightarrow> if take 7 h = ''Bearer '' then Some (drop 7 h) else None)"

text \<open>Modelled from the spec: the backend serving \<^verbatim>\<open>POST /auth/logout\<close>: it logs the
  bearer token out and answers \<^verbatim>\<open>{success}\<close>; without a bearer token it answers 401.\<close>

definition serve_logout :: "backend \<Rightarrow> request \<Rightarrow> backend \<times> response" where
  "serve_logout b r =
     (case bearer_token r of
        None \<Rightarrow> (b, \<lparr>status = 401, json = Inr (JObj [(''success'', JBool False)])\<rparr>)
      | Some tok \<Rightarrow> (logout b tok, \<lparr>status = 200, json = Inr (JObj [(''success'', JBool True)])\<rparr>))"

text \<open>Modelled from the spec: the local HTTP link between the frontend and the backend
  (section 1), as what becomes of one request: it reaches the backend, which serves it, and
  the response reaches the frontend; or it is served and the response does not come back,
  so that \<^verbatim>\<open>fetch\<close> rejects; or it does not reach the backend at all and \<^verbatim>\<open>fetch\<close>
  rejects.\<close>

datatype delivery = Delivered | Unanswered | Lost

text \<open>Modelled from the spec: whether the backend got the request.\<close>

fun reached :: "delivery \<Rightarrow> bool" where
  "reached Delivered = True"
| "reached Unanswered = True"
| "reached Lost = False"

text \<open>Modelled from the spec: \<^verbatim>\<open>handleLogout\<close> (as the source has it) run against the
  backend of the model: the logout request, when one is made, is served by the backend,
  or served and left unanswered, or lost.\<close>

definition logout_exchange :: "delivery \<Rightarrow> backend \<Rightarrow> world \<Rightarrow> world \<times> backend" where
  "logout_exchange d b w =
     (case handleLogout_start w of
        (w1, False) \<Rightarrow> (w1, b)
      | (w1, True) \<Rightarrow>
          (case d of
             Lost \<Rightarrow> (handleLogout_settle (Rejected (TypeError ''Failed to fetch'')) w1, b)
           | Unanswered \<Rightarrow>
               (handleLogout_settle (Rejected (TypeError ''Failed to fetch'')) w1,
                fst (serve_logout b (logout_request w)))
           | Delivered \<Rightarrow>
               (case serve_logout b (logout_request w) of
                  (b', resp) \<Rightarrow> (handleLogout_settle (Resolved resp) w1, b'))))"

section \<open>Further observations\<close>

text \<open>The login request \<^verbatim>\<open>handleLogin\<close> makes for the form as it is filled in.\<close>

definition login_fetch :: "world \<Rightarrow> event" where
  "login_fetch w =
     Fetch (login_request (trim (usernameInput_value (page w))) (passwordInput_value (page w)))"

text \<open>Some effect of a run is a write to \<^verbatim>\<open>localStorage\<close>.\<close>

definition stores :: "event list \<Rightarrow> bool" where
  "stores es = (\<exists>k v. SetItem k v \<in> set es)"


text \<open>Modelled from the spec: the backend with the counter of \<open>user\<close> as \<open>record_failure\<close>
  leaves it when the threshold is reached at time \<open>t\<close>.\<close>

definition locked_state :: "backend \<Rightarrow> string \<Rightarrow> nat \<Rightarrow> backend" where
  "locked_state b user t =
     b\<lparr>counters := (counters b)
          (user := \<lparr>failure_count = 0, locked_until = Some (t + lockout_duration)\<rparr>)\<rparr>"


text \<open>
  An engine's \<^verbatim>\<open>Math.log\<close> is accurate on the integers: from 2 on, its value differs from
  the natural logarithm by at most that logarithm over \<open>2 ^ 48\<close>.
\<close>

definition approximates_ln :: "(real \<Rightarrow> real) \<Rightarrow> bool" where
  "approximates_ln approx \<longleftrightarrow>
     (\<forall>n::int. 2 \<le> n \<longrightarrow> \<bar>approx (of_int n) - ln (of_int n)\<bar> \<le> ln (of_int n) / 2 ^ 48)"


section \<open>Concrete inputs\<close>

text \<open>
  A page whose \<^verbatim>\<open>localStorage\<close> holds a session (as a successful login leaves it), after
  \<^verbatim>\<open>checkExistingSession\<close> has restored it.
\<close>

definition stored_session :: "string \<Rightarrow> string \<Rightarrow> world" where
  "stored_session tok user =
     checkExistingSession (first_load [''authToken'' \<mapsto> tok, ''username'' \<mapsto> user])"

text \<open>A freshly loaded page, nothing stored, with the login form filled in.\<close>

definition login_form :: "string \<Rightarrow> string \<Rightarrow> world" where
  "login_form u p = type_credentials u p (first_load Map.empty)"

text \<open>The options \<^verbatim>\<open>uploadFile\<close> passes to \<^verbatim>\<open>apiRequest\<close>, for one file path.\<close>

definition upload_opts :: options where
  "upload_opts =
     \<lparr>opt_method = Some ''POST'', opt_headers = Map.empty,
      opt_body = Some (JObj [(''file_path'', JStr ''/tmp/a.txt'')])\<rparr>"

text \<open>A 401 response with a JSON body.\<close>

definition unauthorized_response :: response where
  "unauthorized_response = \<lparr>status = 401, json = Inr (JObj [(''error'', JStr ''Unauthorized'')])\<rparr>"

text \<open>The rejection of a \<^verbatim>\<open>fetch\<close> whose request could not be sent.\<close>

definition failed_to_fetch :: fetch_result where
  "failed_to_fetch = Rejected (TypeError ''Failed to fetch'')"

text \<open>A response with the given JSON body and status 200.\<close>

definition ok_response :: "jsval \<Rightarrow> response" where
  "ok_response data = \<lparr>status = 200, json = Inr data\<rparr>"

text \<open>Login bodies: accepted and refused.\<close>

definition accepted_body :: jsval where
  "accepted_body =
     JObj [(''success'', JBool True), (''token'', JStr ''t0k3n''), (''username'', JStr ''alice'')]"

definition refused_body :: jsval where
  "refused_body = JObj [(''success'', JBool False), (''error'', JStr ''Invalid credentials'')]"



text \<open>A response whose body is not JSON.\<close>

definition garbled_response :: response where
  "garbled_response = \<lparr>status = 502, json = Inl (SyntaxError ''Unexpected token'')\<rparr>"






text \<open>Modelled from the spec: a provisioned backend: one Identity, no session, no failed
  attempt.\<close>

definition provisioned :: backend where
  "provisioned =
     \<lparr>credential = Some \<lparr>id_username = ''alice'', password_hash = hash ''salt'' ''secret'',
                          created_at = 0\<rparr>,
      counters = (\<lambda>user. \<lparr>failure_count = 0, locked_until = None\<rparr>),
      sessions = Map.empty\<rparr>"

text \<open>Modelled from the spec: five attempts with a wrong password, at seconds 1 to 5.\<close>

definition five_wrong :: "(string \<times> nat \<times> string) list" where
  "five_wrong =
     [(''guess'', 1, ''k1''), (''guess'', 2, ''k2''), (''guess'', 3, ''k3''),
      (''guess'', 4, ''k4''), (''guess'', 5, ''k5'')]"


text \<open>Freshly loaded pages: one with a session in \<^verbatim>\<open>localStorage\<close>, one whose stored
  username is empty.\<close>

definition saved_page :: world where
  "saved_page = first_load [''authToken'' \<mapsto> ''t0k3n'', ''username'' \<mapsto> ''alice'']"

definition half_saved_page :: world where
  "half_saved_page = first_load [''authToken'' \<mapsto> ''t0k3n'', ''username'' \<mapsto> '''']"


text \<open>An engine whose \<^verbatim>\<open>Math.log\<close> is the correctly rounded natural logarithm.\<close>

definition correctly_rounded :: "real \<Rightarrow> real" where
  "correctly_rounded x = to_double (ln x)"


section \<open>Properties\<close>

lemma fetches_append: "fetches (xs @ ys) = fetches xs @ fetches ys"
  by (induction xs rule: fetches.induct) simp_all

lemma added_self: "added w w = []"
  by (simp add: added_def)


subsection \<open>Logging in\<close>

text \<open>
  C8. A login form submitted with an empty trimmed username or an empty password shows
  the error "Please enter username and password" and returns: no request is sent (the
  only effect is the event's preventDefault), and \<^verbatim>\<open>state\<close> and \<^verbatim>\<open>localStorage\<close> are as
  before.
\<close>

theorem handleLogin_empty_fields:
  assumes "trim (usernameInput_value (page w)) = '''' \<or> passwordInput_value (page w) = ''''"
  shows "loginResult_textContent (page (handleLogin net w)) = ''Please enter username and password''
       \<and> loginResult_className (page (handleLogin net w)) = ''login-result error''
       \<and> trace (handleLogin net w) = trace w @ [PreventDefault]
       \<and> fetches (trace (handleLogin net w)) = fetches (trace w)
       \<and> state (handleLogin net w) = state w
       \<and> localStorage (handleLogin net w) = localStorage w"
proof -
  have "handleLogin net w =
          showLoginError (JStr ''Please enter username and password'') (emit PreventDefault w)"
    using assms by (simp add: handleLogin_def Let_def emit_def)
  then show ?thesis
    by (simp add: showLoginError_def emit_def fetches_append)
qed

text \<open>A form whose username is two spaces: nothing is sent, even when no request could be.\<close>

theorem handleLogin_empty_fields_witness:
  "trim (usernameInput_value (page (login_form ''  '' ''pw''))) = ''''
   \<and> trace (handleLogin failed_to_fetch (login_form ''  '' ''pw'')) = [PreventDefault]
   \<and> loginResult_textContent (page (handleLogin failed_to_fetch (login_form ''  '' ''pw'')))
       = ''Please enter username and password''
   \<and> localStorage (handleLogin failed_to_fetch (login_form ''  '' ''pw'')) ''authToken'' = None"
proof -
  have h: "trim (usernameInput_value (page (login_form ''  '' ''pw''))) = ''''
           \<or> passwordInput_value (page (login_form ''  '' ''pw'')) = ''''"
    by (simp add: login_form_def type_credentials_def first_load_def initial_dom_def trim_def
        is_space_def)
  from handleLogin_empty_fields [OF h, of failed_to_fetch] show ?thesis
    by (simp add: login_form_def type_credentials_def first_load_def initial_dom_def trim_def
        is_space_def)
qed

lemma handleLogin_filled:
  assumes "trim (usernameInput_value (page w)) \<noteq> ''''" and "passwordInput_value (page w) \<noteq> ''''"
  shows "handleLogin (Resolved resp) w =
     (let w1 = emit (login_fetch w) (emit PreventDefault w)
      in case readable resp of
           None \<Rightarrow> login_catch w1
         | Some data \<Rightarrow>
             if truthy (prop_of data ''success'') then
               showMainApp
                 (setItem ''username'' (ToString (prop_of data ''username''))
                   (setItem ''authToken'' (ToString (prop_of data ''token''))
                     (w1\<lparr>state := (state w1)\<lparr>authToken := prop_of data ''token'',
                                               username := prop_of data ''username''\<rparr>\<rparr>)))
             else showLoginError (js_or (prop_of data ''error'') (JStr ''Login failed'')) w1)"
  using assms
  by (simp add: handleLogin_def Let_def readable_def emit_def login_fetch_def split: sum.split)

lemma handleLogin_accepted:
  assumes "trim (usernameInput_value (page w)) \<noteq> ''''" and "passwordInput_value (page w) \<noteq> ''''"
    and "readable resp = Some data" and "truthy (prop_of data ''success'')"
  shows "state (handleLogin (Resolved resp) w)
           = (state w)\<lparr>authToken := prop_of data ''token'', username := prop_of data ''username''\<rparr>"
    and "localStorage (handleLogin (Resolved resp) w)
           = (localStorage w)(''authToken'' \<mapsto> ToString (prop_of data ''token''),
                              ''username'' \<mapsto> ToString (prop_of data ''username''))"
    and "loginScreen_display (page (handleLogin (Resolved resp) w)) = ''none''"
    and "mainApp_display (page (handleLogin (Resolved resp) w)) = ''block''"
    and "added w (handleLogin (Resolved resp) w)
           = [PreventDefault, login_fetch w,
              SetItem ''authToken'' (ToString (prop_of data ''token'')),
              SetItem ''username'' (ToString (prop_of data ''username'')),
              MainListeners, Fetch checkHealth_request]"
  using assms
  by (simp_all add: handleLogin_filled Let_def showMainApp_def checkHealth_start_def setItem_def
      emit_def added_def)

lemma handleLogin_refused:
  assumes "trim (usernameInput_value (page w)) \<noteq> ''''" and "passwordInput_value (page w) \<noteq> ''''"
    and "readable resp = Some data" and "\<not> truthy (prop_of data ''success'')"
  shows "state (handleLogin (Resolved resp) w) = state w"
    and "localStorage (handleLogin (Resolved resp) w) = localStorage w"
    and "page (handleLogin (Resolved resp) w)
           = (page w)\<lparr>loginResult_textContent :=
                         ToString (js_or (prop_of data ''error'') (JStr ''Login failed'')),
                       loginResult_className := ''login-result error''\<rparr>"
    and "added w (handleLogin (Resolved resp) w) = [PreventDefault, login_fetch w]"
  using assms
  by (simp_all add: handleLogin_filled Let_def showLoginError_def emit_def added_def)

lemma handleLogin_unreadable:
  assumes "trim (usernameInput_value (page w)) \<noteq> ''''" and "passwordInput_value (page w) \<noteq> ''''"
    and "readable resp = None"
  shows "state (handleLogin (Resolved resp) w) = state w"
    and "localStorage (handleLogin (Resolved resp) w) = localStorage w"
    and "page (handleLogin (Resolved resp) w)
           = (page w)\<lparr>loginResult_textContent :=
                         ''Connection error. Please check if the server is running.'',
                       loginResult_className := ''login-result error''\<rparr>"
    and "added w (handleLogin (Resolved resp) w)
           = [PreventDefault, login_fetch w, ConsoleError ''Login error:'']"
  using assms
  by (simp_all add: handleLogin_filled Let_def login_catch_def showLoginError_def emit_def
      added_def)

lemma login_form_simps:
  "usernameInput_value (page (login_form u p)) = u"
  "passwordInput_value (page (login_form u p)) = p"
  "state (login_form u p) = initial_state"
  "localStorage (login_form u p) = Map.empty"
  "trace (login_form u p) = []"
  by (simp_all add: login_form_def type_credentials_def first_load_def)

lemma trim_alice: "trim ''alice'' = ''alice''"
  by (simp add: trim_def is_space_def)

lemma readable_ok_response: "\<not> nullish data \<Longrightarrow> readable (ok_response data) = Some data"
  by (simp add: readable_def ok_response_def)

lemma body_reads:
  "prop_of accepted_body ''success'' = JBool True"
  "prop_of accepted_body ''token'' = JStr ''t0k3n''"
  "prop_of accepted_body ''username'' = JStr ''alice''"
  "prop_of refused_body ''success'' = JBool False"
  "prop_of refused_body ''error'' = JStr ''Invalid credentials''"
  by (simp_all add: accepted_body_def refused_body_def)

lemma body_readable:
  "readable (ok_response accepted_body) = Some accepted_body"
  "readable (ok_response refused_body) = Some refused_body"
  by (simp_all add: readable_ok_response nullish_def accepted_body_def refused_body_def)


lemma stores_handleLogin:
  assumes "trim (usernameInput_value (page w)) \<noteq> ''''" and "passwordInput_value (page w) \<noteq> ''''"
    and "readable resp = Some data"
  shows "stores (added w (handleLogin (Resolved resp) w)) \<longleftrightarrow> truthy (prop_of data ''success'')"
proof (cases "truthy (prop_of data ''success'')")
  case True
  with assms show ?thesis
    by (auto simp: handleLogin_accepted stores_def)
next
  case False
  with assms show ?thesis
    by (simp add: handleLogin_refused stores_def login_fetch_def)
qed

text \<open>
  C3. With the form filled in, for every response to the login request whose body has a
  boolean \<^verbatim>\<open>success\<close>, as the protocol has it: the frontend stores a session if and only if
  \<^verbatim>\<open>success\<close> is \<^verbatim>\<open>true\<close>. When it is \<^verbatim>\<open>true\<close>, \<^verbatim>\<open>state.authToken\<close> and \<^verbatim>\<open>state.username\<close>
  are the body's \<^verbatim>\<open>token\<close> and \<^verbatim>\<open>username\<close>, the \<^verbatim>\<open>localStorage\<close> keys \<^verbatim>\<open>authToken\<close> and
  \<^verbatim>\<open>username\<close> hold them (\<^verbatim>\<open>setItem\<close> stores a string as it is), and the main application
  is shown in place of the login screen. When it is \<^verbatim>\<open>false\<close>, \<^verbatim>\<open>state\<close> and \<^verbatim>\<open>localStorage\<close>
  are as before, nothing is done beyond the request, and the document differs only in the
  login error, which reads the body's \<^verbatim>\<open>error\<close>, or "Login failed".
\<close>

theorem handleLogin_response:
  assumes "trim (usernameInput_value (page w)) \<noteq> ''''" and "passwordInput_value (page w) \<noteq> ''''"
    and "readable resp = Some data" and "prop_of data ''success'' = JBool success"
  shows "(stores (added w (handleLogin (Resolved resp) w)) \<longleftrightarrow> success)
       \<and> (success \<longrightarrow>
            state (handleLogin (Resolved resp) w)
              = (state w)\<lparr>authToken := prop_of data ''token'', username := prop_of data ''username''\<rparr>
          \<and> localStorage (handleLogin (Resolved resp) w)
              = (localStorage w)(''authToken'' \<mapsto> ToString (prop_of data ''token''),
                                 ''username'' \<mapsto> ToString (prop_of data ''username''))
          \<and> loginScreen_display (page (handleLogin (Resolved resp) w)) = ''none''
          \<and> mainApp_display (page (handleLogin (Resolved resp) w)) = ''block'')
       \<and> (\<not> success \<longrightarrow>
            state (handleLogin (Resolved resp) w) = state w
          \<and> localStorage (handleLogin (Resolved resp) w) = localStorage w
          \<and> page (handleLogin (Resolved resp) w)
              = (page w)\<lparr>loginResult_textContent :=
                            ToString (js_or (prop_of data ''error'') (JStr ''Login failed'')),
                          loginResult_className := ''login-result error''\<rparr>
          \<and> added w (handleLogin (Resolved resp) w) = [PreventDefault, login_fetch w])"
proof -
  have st: "stores (added w (handleLogin (Resolved resp) w)) \<longleftrightarrow> success"
    using stores_handleLogin [OF assms(1-3)] assms(4) by simp
  show ?thesis
  proof (cases success)
    case True
    with assms show ?thesis
      unfolding st by (simp add: handleLogin_accepted)
  next
    case False
    with assms show ?thesis
      unfolding st by (simp add: handleLogin_refused)
  qed
qed

text \<open>An accepted and a refused login, on a freshly loaded page.\<close>

theorem handleLogin_response_witness:
  "trim (usernameInput_value (page (login_form ''alice'' ''secret''))) \<noteq> ''''
   \<and> passwordInput_value (page (login_form ''alice'' ''secret'')) \<noteq> ''''
   \<and> readable (ok_response accepted_body) = Some accepted_body
   \<and> prop_of accepted_body ''success'' = JBool True
   \<and> stores (added (login_form ''alice'' ''secret'')
        (handleLogin (Resolved (ok_response accepted_body)) (login_form ''alice'' ''secret'')))
   \<and> state (handleLogin (Resolved (ok_response accepted_body)) (login_form ''alice'' ''secret''))
       = initial_state\<lparr>authToken := JStr ''t0k3n'', username := JStr ''alice''\<rparr>
   \<and> localStorage (handleLogin (Resolved (ok_response accepted_body)) (login_form ''alice'' ''secret''))
       = [''authToken'' \<mapsto> ''t0k3n'', ''username'' \<mapsto> ''alice'']
   \<and> mainApp_display
        (page (handleLogin (Resolved (ok_response accepted_body)) (login_form ''alice'' ''secret'')))
       = ''block''
   \<and> readable (ok_response refused_body) = Some refused_body
   \<and> prop_of refused_body ''success'' = JBool False
   \<and> \<not> stores (added (login_form ''alice'' ''secret'')
        (handleLogin (Resolved (ok_response refused_body)) (login_form ''alice'' ''secret'')))
   \<and> state (handleLogin (Resolved (ok_response refused_body)) (login_form ''alice'' ''secret''))
       = initial_state
   \<and> localStorage (handleLogin (Resolved (ok_response refused_body)) (login_form ''alice'' ''secret''))
       = Map.empty
   \<and> loginResult_textContent
        (page (handleLogin (Resolved (ok_response refused_body)) (login_form ''alice'' ''secret'')))
       = ''Invalid credentials''"
proof -
  have u: "trim (usernameInput_value (page (login_form ''alice'' ''secret''))) \<noteq> ''''"
    by (simp add: login_form_simps trim_alice)
  have p: "passwordInput_value (page (login_form ''alice'' ''secret'')) \<noteq> ''''"
    by (simp add: login_form_simps)
  from handleLogin_response [OF u p body_readable(1) body_reads(1)]
       handleLogin_response [OF u p body_readable(2) body_reads(4)]
  show ?thesis
    by (simp add: login_form_simps trim_alice body_readable body_reads js_or_def stores_def
        login_fetch_def)
qed


subsection \<open>Logging out\<close>

lemma logged_out_logout_clear: "logged_out (logout_clear w)"
  by (simp add: logged_out_def logout_clear_def showLoginScreen_def removeItem_def emit_def)

lemma logged_out_settle: "logged_out (handleLogout_settle net w)"
  by (simp add: handleLogout_settle_def logged_out_logout_clear)

lemma logged_out_settled_start: "logged_out (settled net (handleLogout_start w))"
  by (simp add: settled_def handleLogout_start_def logged_out_settle logged_out_logout_clear)

lemma handleLogout_settled: "handleLogout net w = settled net (handleLogout_start w)"
  by (simp add: handleLogout_def settled_def handleLogout_start_def)

lemma logged_out_handleLogout: "logged_out (handleLogout net w)"
  by (simp add: handleLogout_settled logged_out_settled_start)

lemma apiRequest_401_eq:
  "status resp = 401 \<Longrightarrow>
   apiRequest endpoint opts (Resolved resp) w =
     (Inl (Error ''Session expired. Please login again.''),
      handleLogout_start (emit (Fetch (api_request endpoint opts w)) w))"
  by (simp add: apiRequest_def Let_def split: prod.split)

lemma stored_session_simps:
  "tok \<noteq> '''' \<Longrightarrow> user \<noteq> '''' \<Longrightarrow>
   state (stored_session tok user) = initial_state\<lparr>authToken := JStr tok, username := JStr user\<rparr>"
  "localStorage (stored_session tok user) = [''authToken'' \<mapsto> tok, ''username'' \<mapsto> user]"
  by (simp_all add: stored_session_def checkExistingSession_def Let_def getItem_def first_load_def
      showMainApp_def checkHealth_start_def emit_def)

text \<open>
  C1. Whatever the endpoint, the options and the state, when the response to the request of
  \<^verbatim>\<open>apiRequest\<close> has status 401, \<^verbatim>\<open>apiRequest\<close> throws (it does not return the response),
  and once the \<^verbatim>\<open>handleLogout\<close> it started has run to its end, however its own request
  settles, the token and the username are gone from \<^verbatim>\<open>state\<close> and from \<^verbatim>\<open>localStorage\<close>
  and the login screen is displayed.
\<close>

theorem apiRequest_unauthorized:
  assumes "status resp = 401"
  shows "fst (apiRequest endpoint opts (Resolved resp) w)
           = Inl (Error ''Session expired. Please login again.'')
       \<and> logged_out (settled net (snd (apiRequest endpoint opts (Resolved resp) w)))"
  using assms by (simp add: apiRequest_401_eq logged_out_settled_start)

text \<open>An upload answered with 401 while a session is stored.\<close>

theorem apiRequest_unauthorized_witness:
  "status unauthorized_response = 401
   \<and> authToken (state (stored_session ''t0k3n'' ''alice'')) = JStr ''t0k3n''
   \<and> localStorage (stored_session ''t0k3n'' ''alice'') ''authToken'' = Some ''t0k3n''
   \<and> fst (apiRequest ''/ipfs/upload'' upload_opts (Resolved unauthorized_response)
            (stored_session ''t0k3n'' ''alice''))
       = Inl (Error ''Session expired. Please login again.'')
   \<and> logged_out (settled failed_to_fetch
        (snd (apiRequest ''/ipfs/upload'' upload_opts (Resolved unauthorized_response)
               (stored_session ''t0k3n'' ''alice''))))"
proof -
  have h: "status unauthorized_response = 401"
    by (simp add: unauthorized_response_def)
  from apiRequest_unauthorized [OF h] show ?thesis
    by (simp add: stored_session_simps h)
qed

lemma bearer_logout_request:
  "bearer_token (logout_request w) = Some (ToString (authToken (state w)))"
  by (simp add: bearer_token_def logout_request_def)

lemma logout_exchange_eq:
  "logout_exchange d b w =
     (if truthy (authToken (state w)) then
        (case d of
           Lost \<Rightarrow> (handleLogout failed_to_fetch w, b)
         | Unanswered \<Rightarrow>
             (handleLogout failed_to_fetch w, logout b (ToString (authToken (state w))))
         | Delivered \<Rightarrow>
             (handleLogout (Resolved \<lparr>status = 200, json = Inr (JObj [(''success'', JBool True)])\<rparr>) w,
              logout b (ToString (authToken (state w)))))
      else (handleLogout failed_to_fetch w, b))"
  by (simp add: logout_exchange_def handleLogout_def handleLogout_start_def serve_logout_def
      bearer_logout_request failed_to_fetch_def split: delivery.split)

lemma logged_out_logout_exchange: "logged_out (fst (logout_exchange d b w))"
  by (cases d) (simp_all add: logout_exchange_eq logged_out_handleLogout)

lemma sessions_login_other:
  "tok \<noteq> tok' \<Longrightarrow> sessions (snd (login b user password now tok')) tok = sessions b tok"
  by (simp add: login_def issue_def)

lemma sessions_logout_other:
  "tok \<noteq> tok' \<Longrightarrow> sessions (logout b tok') tok = sessions b tok"
  by (simp add: logout_def revoke_def)

lemma sessions_gateway_untouched:
  "tok \<notin> drawn calls \<Longrightarrow> tok \<notin> logged_out_tokens calls \<Longrightarrow>
   sessions (gateway b calls) tok = sessions b tok"
  by (induction b calls rule: gateway.induct)
     (simp_all add: sessions_login_other sessions_logout_other)

lemma sessions_gateway_revoked:
  "tok \<notin> drawn calls \<Longrightarrow> sessions b tok = None \<Longrightarrow> sessions (gateway b calls) tok = None"
  by (induction b calls rule: gateway.induct)
     (simp_all add: sessions_login_other logout_def revoke_def)

lemma authenticate_gateway_logout:
  "tok \<notin> drawn calls \<Longrightarrow> authenticate (gateway (logout b tok) calls) tok now = Inl Unauthorized"
  by (simp add: authenticate_def validate_def sessions_gateway_revoked logout_def revoke_def)

text \<open>
  C2, as the code has it. From every state and however the logout request settles,
  \<^verbatim>\<open>handleLogout\<close> ends with no token and no username in \<^verbatim>\<open>state\<close>, both \<^verbatim>\<open>localStorage\<close>
  keys removed and the login screen shown; so it does when the request is served by the
  backend of the model, answered or not, or lost on the way. When the frontend held a
  token and the request reached the backend, authenticating with that token yields
  Unauthorized from then on, through any later calls that do not draw the same token
  again. When it held none, or the request was lost, the backend is as before.
\<close>

theorem handleLogout_exchange:
  "logged_out (handleLogout net w)
   \<and> logged_out (fst (logout_exchange d b w))
   \<and> (truthy (authToken (state w)) \<and> reached d \<and> ToString (authToken (state w)) \<notin> drawn calls
        \<longrightarrow> authenticate (gateway (snd (logout_exchange d b w)) calls)
              (ToString (authToken (state w))) now = Inl Unauthorized)
   \<and> (\<not> truthy (authToken (state w)) \<or> \<not> reached d \<longrightarrow> snd (logout_exchange d b w) = b)"
proof (cases d)
  case Delivered
  then show ?thesis
    by (simp add: logged_out_handleLogout logged_out_logout_exchange)
       (simp add: logout_exchange_eq authenticate_gateway_logout)
next
  case Unanswered
  then show ?thesis
    by (simp add: logged_out_handleLogout logged_out_logout_exchange)
       (simp add: logout_exchange_eq authenticate_gateway_logout)
next
  case Lost
  then show ?thesis
    by (simp add: logged_out_handleLogout logged_out_logout_exchange)
       (simp add: logout_exchange_eq)
qed

text \<open>Modelled from the spec: the provisioned backend after a login at second 10 that drew
  the token the frontend stores.\<close>

lemma provisioned_login:
  "login provisioned ''alice'' ''secret'' 10 ''t0k3n'' =
     (Inr ''t0k3n'', issue provisioned ''alice'' 10 ''t0k3n'')"
  by (simp add: login_def provisioned_def is_locked_def credentials_ok_def hash_def
      record_success_def issue_def fun_eq_iff)

text \<open>A logout whose request reaches the backend, and the token used a minute later.\<close>

theorem handleLogout_exchange_witness:
  "truthy (authToken (state (stored_session ''t0k3n'' ''alice'')))
   \<and> ToString (authToken (state (stored_session ''t0k3n'' ''alice''))) = ''t0k3n''
   \<and> reached Delivered
   \<and> ''t0k3n'' \<notin> drawn [Login ''alice'' ''secret'' 50 ''0th3r'']
   \<and> authenticate (issue provisioned ''alice'' 10 ''t0k3n'') ''t0k3n'' 70 = Inr ''alice''
   \<and> logged_out (fst (logout_exchange Delivered (issue provisioned ''alice'' 10 ''t0k3n'')
                        (stored_session ''t0k3n'' ''alice'')))
   \<and> authenticate
        (gateway (snd (logout_exchange Delivered (issue provisioned ''alice'' 10 ''t0k3n'')
                         (stored_session ''t0k3n'' ''alice'')))
           [Login ''alice'' ''secret'' 50 ''0th3r''])
        ''t0k3n'' 70 = Inl Unauthorized
   \<and> \<not> reached Lost
   \<and> snd (logout_exchange Lost (issue provisioned ''alice'' 10 ''t0k3n'')
            (stored_session ''t0k3n'' ''alice''))
       = issue provisioned ''alice'' 10 ''t0k3n''"
proof -
  have s: "state (stored_session ''t0k3n'' ''alice'')
             = initial_state\<lparr>authToken := JStr ''t0k3n'', username := JStr ''alice''\<rparr>"
    by (simp add: stored_session_simps)
  have a: "authenticate (issue provisioned ''alice'' 10 ''t0k3n'') ''t0k3n'' 70 = Inr ''alice''"
    by (simp add: authenticate_def validate_def issue_def fixed_ttl_def)
  from handleLogout_exchange
         [where w = "stored_session ''t0k3n'' ''alice''" and d = Delivered
            and calls = "[Login ''alice'' ''secret'' 50 ''0th3r'']"
            and b = "issue provisioned ''alice'' 10 ''t0k3n''" and now = 70]
       handleLogout_exchange
         [where w = "stored_session ''t0k3n'' ''alice''" and d = Lost
            and b = "issue provisioned ''alice'' 10 ''t0k3n''"]
  show ?thesis
    by (simp add: s a)
qed

text \<open>
  The same logout with the request lost on the way: the frontend is logged out, and the
  token still authenticates.
\<close>

theorem handleLogout_lost_request_counterexample:
  "authToken (state (stored_session ''t0k3n'' ''alice'')) = JStr ''t0k3n''
   \<and> authenticate (issue provisioned ''alice'' 10 ''t0k3n'') ''t0k3n'' 70 = Inr ''alice''
   \<and> logged_out (fst (logout_exchange Lost (issue provisioned ''alice'' 10 ''t0k3n'')
                        (stored_session ''t0k3n'' ''alice'')))
   \<and> fst (logout_exchange Lost (issue provisioned ''alice'' 10 ''t0k3n'')
            (stored_session ''t0k3n'' ''alice''))
       = handleLogout failed_to_fetch (stored_session ''t0k3n'' ''alice'')
   \<and> authenticate (snd (logout_exchange Lost (issue provisioned ''alice'' 10 ''t0k3n'')
                          (stored_session ''t0k3n'' ''alice''))) ''t0k3n'' 70 = Inr ''alice''"
  by (simp add: logged_out_handleLogout logout_exchange_eq stored_session_simps
      authenticate_def validate_def issue_def fixed_ttl_def)


subsection \<open>Starting up\<close>

lemma trace_checkExistingSession:
  "trace (checkExistingSession w) =
     trace w @ (if truthy (getItem ''authToken'' w) \<and> truthy (getItem ''username'' w)
                then [MainListeners, Fetch checkHealth_request] else [])"
  by (simp add: checkExistingSession_def Let_def showMainApp_def checkHealth_start_def emit_def)

lemma truthy_getItem:
  "truthy (getItem k w) \<longleftrightarrow> (\<exists>v. localStorage w k = Some v \<and> v \<noteq> '''')"
  by (simp add: getItem_def split: option.split)

lemma checkExistingSession_restores:
  assumes "localStorage w ''authToken'' = Some t" and "t \<noteq> ''''"
    and "localStorage w ''username'' = Some u" and "u \<noteq> ''''"
  shows "checkExistingSession w =
           showMainApp (w\<lparr>state := (state w)\<lparr>authToken := JStr t, username := JStr u\<rparr>\<rparr>)"
  using assms by (simp add: checkExistingSession_def Let_def getItem_def)

lemma checkExistingSession_skips:
  assumes "\<not> (\<exists>t u. localStorage w ''authToken'' = Some t \<and> t \<noteq> ''''
                  \<and> localStorage w ''username'' = Some u \<and> u \<noteq> '''')"
  shows "checkExistingSession w = w"
  using assms by (auto simp: checkExistingSession_def Let_def truthy_getItem)

lemma localStorage_checkExistingSession:
  "localStorage (checkExistingSession w) = localStorage w"
  by (simp add: checkExistingSession_def Let_def showMainApp_def checkHealth_start_def emit_def)

lemma checkHealth_settle_frame:
  "state (checkHealth_settle net w) = state w"
  "localStorage (checkHealth_settle net w) = localStorage w"
  "loginScreen_display (page (checkHealth_settle net w)) = loginScreen_display (page w)"
  "mainApp_display (page (checkHealth_settle net w)) = mainApp_display (page w)"
  "fetches (trace (checkHealth_settle net w)) = fetches (trace w)"
  by (simp_all add: checkHealth_settle_def health_failed_def emit_def fetches_append
      split: fetch_result.split sum.split)

lemma checkHealth_request_simps:
  "url checkHealth_request = ''http://127.0.0.1:8765/health''"
  "req_method checkHealth_request = ''GET''"
  "headers checkHealth_request k = None"
  "body checkHealth_request = None"
  by (simp_all add: checkHealth_request_def API_BASE_def)

text \<open>
  C10, as the code has it. \<^verbatim>\<open>checkExistingSession\<close> restores the session exactly when
  both \<^verbatim>\<open>localStorage\<close> keys are present and not empty: it then sets \<^verbatim>\<open>state.authToken\<close> and
  \<^verbatim>\<open>state.username\<close> to them and shows the main application, and otherwise changes
  nothing. It decides from \<^verbatim>\<open>localStorage\<close> alone and sends the token nowhere; but showing
  the main application contacts the server once: \<^verbatim>\<open>showMainApp\<close> starts \<^verbatim>\<open>checkHealth\<close>,
  whose request \<^verbatim>\<open>GET /health\<close> carries no header and no body, and whose outcome, whatever
  it is, leaves the session, the storage and the two screens as they are. The restored
  token is first sent by the next \<^verbatim>\<open>apiRequest\<close>, as its bearer token, and a 401 response
  to that request ends the session.
\<close>

theorem checkExistingSession_restore:
  "(\<forall>t u. localStorage w ''authToken'' = Some t \<and> t \<noteq> ''''
         \<and> localStorage w ''username'' = Some u \<and> u \<noteq> '''' \<longrightarrow>
       state (checkExistingSession w) = (state w)\<lparr>authToken := JStr t, username := JStr u\<rparr>
     \<and> loginScreen_display (page (checkExistingSession w)) = ''none''
     \<and> mainApp_display (page (checkExistingSession w)) = ''block''
     \<and> userInfo_textContent (page (checkExistingSession w)) = ''Logged in as: '' @ u
     \<and> added w (checkExistingSession w) = [MainListeners, Fetch checkHealth_request])
   \<and> (\<not> (\<exists>t u. localStorage w ''authToken'' = Some t \<and> t \<noteq> ''''
                \<and> localStorage w ''username'' = Some u \<and> u \<noteq> '''') \<longrightarrow>
       checkExistingSession w = w)
   \<and> localStorage (checkExistingSession w) = localStorage w
   \<and> url checkHealth_request = ''http://127.0.0.1:8765/health''
   \<and> headers checkHealth_request ''Authorization'' = None
   \<and> body checkHealth_request = None
   \<and> state (checkHealth_settle net (checkExistingSession w)) = state (checkExistingSession w)
   \<and> localStorage (checkHealth_settle net (checkExistingSession w)) = localStorage w
   \<and> loginScreen_display (page (checkHealth_settle net (checkExistingSession w)))
       = loginScreen_display (page (checkExistingSession w))
   \<and> mainApp_display (page (checkHealth_settle net (checkExistingSession w)))
       = mainApp_display (page (checkExistingSession w))
   \<and> (\<forall>t u. localStorage w ''authToken'' = Some t \<and> t \<noteq> ''''
         \<and> localStorage w ''username'' = Some u \<and> u \<noteq> '''' \<longrightarrow>
       headers (api_request endpoint opts (checkExistingSession w)) ''Authorization''
         = Some (''Bearer '' @ t))
   \<and> (status resp = 401 \<longrightarrow>
       fst (apiRequest endpoint opts (Resolved resp) (checkExistingSession w))
         = Inl (Error ''Session expired. Please login again.'')
     \<and> logged_out (settled net'
         (snd (apiRequest endpoint opts (Resolved resp) (checkExistingSession w)))))"
proof -
  have b: "\<And>t u. localStorage w ''authToken'' = Some t \<and> t \<noteq> ''''
         \<and> localStorage w ''username'' = Some u \<and> u \<noteq> '''' \<Longrightarrow>
       headers (api_request endpoint opts (checkExistingSession w)) ''Authorization''
         = Some (''Bearer '' @ t)"
    by (simp add: checkExistingSession_restores showMainApp_def checkHealth_start_def emit_def
        api_request_def Let_def)
  have c: "status resp = 401 \<Longrightarrow>
       fst (apiRequest endpoint opts (Resolved resp) (checkExistingSession w))
         = Inl (Error ''Session expired. Please login again.'')
     \<and> logged_out (settled net'
         (snd (apiRequest endpoint opts (Resolved resp) (checkExistingSession w))))"
    by (simp add: apiRequest_401_eq logged_out_settled_start)
  have a: "\<And>t u. localStorage w ''authToken'' = Some t \<and> t \<noteq> ''''
         \<and> localStorage w ''username'' = Some u \<and> u \<noteq> '''' \<Longrightarrow>
       state (checkExistingSession w) = (state w)\<lparr>authToken := JStr t, username := JStr u\<rparr>
     \<and> loginScreen_display (page (checkExistingSession w)) = ''none''
     \<and> mainApp_display (page (checkExistingSession w)) = ''block''
     \<and> userInfo_textContent (page (checkExistingSession w)) = ''Logged in as: '' @ u
     \<and> added w (checkExistingSession w) = [MainListeners, Fetch checkHealth_request]"
    by (simp add: checkExistingSession_restores showMainApp_def checkHealth_start_def emit_def
        added_def)
  from a b c show ?thesis
    by (simp only: checkHealth_settle_frame localStorage_checkExistingSession
          checkHealth_request_simps)
       (blast intro: checkExistingSession_skips)
qed

text \<open>A stored session is restored; a stored token with an empty username is not.\<close>

theorem checkExistingSession_restore_witness:
  "localStorage saved_page ''authToken'' = Some ''t0k3n''
   \<and> localStorage saved_page ''username'' = Some ''alice''
   \<and> state (checkExistingSession saved_page)
       = initial_state\<lparr>authToken := JStr ''t0k3n'', username := JStr ''alice''\<rparr>
   \<and> mainApp_display (page (checkExistingSession saved_page)) = ''block''
   \<and> userInfo_textContent (page (checkExistingSession saved_page)) = ''Logged in as: alice''
   \<and> localStorage half_saved_page ''username'' = Some ''''
   \<and> checkExistingSession half_saved_page = half_saved_page
   \<and> headers (api_request ''/ipfs/upload'' upload_opts (checkExistingSession saved_page))
        ''Authorization'' = Some ''Bearer t0k3n''
   \<and> status unauthorized_response = 401
   \<and> logged_out (settled (Resolved unauthorized_response)
        (snd (apiRequest ''/ipfs/upload'' upload_opts (Resolved unauthorized_response)
               (checkExistingSession saved_page))))"
proof -
  have r: "status unauthorized_response = 401"
    by (simp add: unauthorized_response_def)
  have s: "localStorage saved_page ''authToken'' = Some ''t0k3n''"
    "localStorage saved_page ''username'' = Some ''alice''"
    "state saved_page = initial_state"
    by (simp_all add: saved_page_def first_load_def)
  have h: "localStorage half_saved_page ''authToken'' = Some ''t0k3n''"
    "localStorage half_saved_page ''username'' = Some ''''"
    by (simp_all add: half_saved_page_def first_load_def)
  from checkExistingSession_restore
         [where w = saved_page and endpoint = "''/ipfs/upload''" and opts = upload_opts
            and resp = unauthorized_response and net' = "Resolved unauthorized_response"]
       checkExistingSession_restore [where w = half_saved_page]
  show ?thesis
    by (simp add: s h r)
qed

text \<open>
  Restoring the stored session hands a request to \<^verbatim>\<open>fetch\<close>: the server is contacted, at
  \<^verbatim>\<open>/health\<close>.
\<close>

theorem checkExistingSession_health_counterexample:
  "map url (fetches (trace (checkExistingSession saved_page))) = [''http://127.0.0.1:8765/health'']
   \<and> map req_method (fetches (trace (checkExistingSession saved_page))) = [''GET'']"
  by (simp add: trace_checkExistingSession getItem_def saved_page_def first_load_def
      checkHealth_request_simps)


lemma page_showFirstTimeCredentials:
  "page (snd (showFirstTimeCredentials found user password w)) =
     (page w)\<lparr>modals := modals (page w) @ [modal_markup (ToString user) (ToString password)],
               usernameInput_value := ToString user, passwordInput_value := ToString password\<rparr>"
  by (simp add: showFirstTimeCredentials_def Let_def emit_def)

















subsection \<open>Resetting the application\<close>








lemma first_time_request_simps:
  "url first_time_request = ''http://127.0.0.1:8765/auth/first-time-check''"
  "req_method first_time_request = ''GET''"
  by (simp_all add: first_time_request_def API_BASE_def)




subsection \<open>Formatting a size\<close>

lemma round_half_even_of_int [simp]: "round_half_even (of_int k) = k"
  by (simp add: round_half_even_def)

lemma round_half_even_bounds: "of_int (round_half_even y) \<le> y + 1 / 2" "y - 1 / 2 \<le> of_int (round_half_even y)"
  by (auto simp: round_half_even_def Let_def) linarith+

lemma round_half_even_mono:
  assumes "x \<le> y"
  shows "round_half_even x \<le> round_half_even y"
proof (cases "\<lfloor>x\<rfloor> = \<lfloor>y\<rfloor>")
  case True
  with assms show ?thesis
    by (auto simp: round_half_even_def Let_def)
next
  case False
  with assms have "\<lfloor>x\<rfloor> + 1 \<le> \<lfloor>y\<rfloor>"
    using floor_mono [OF assms] by linarith
  moreover have "round_half_even x \<le> \<lfloor>x\<rfloor> + 1"
    by (auto simp: round_half_even_def Let_def)
  moreover have "\<lfloor>y\<rfloor> \<le> round_half_even y"
    by (auto simp: round_half_even_def Let_def)
  ultimately show ?thesis
    by linarith
qed

lemma round_half_even_le: "y \<le> of_int k \<Longrightarrow> round_half_even y \<le> k"
  using round_half_even_mono [of y "of_int k"] by simp

lemma round_half_even_ge: "of_int k \<le> y \<Longrightarrow> k \<le> round_half_even y"
  using round_half_even_mono [of "of_int k" y] by simp

lemma ulp_pos: "0 < ulp x"
  by (simp add: ulp_def)

lemma two_powr_52: "(2::real) powr 52 = 2 ^ 52"
  using powr_realpow [of 2 52] by simp

lemma two_powr_53: "(2::real) powr 53 = 2 ^ 53"
  using powr_realpow [of 2 53] by simp

lemma exponent_mono: "0 < x \<Longrightarrow> x \<le> y \<Longrightarrow> exponent x \<le> exponent y"
  unfolding exponent_def by (intro max.mono order_refl floor_mono) simp

lemma less_next_binade:
  assumes "0 < x"
  shows "x < 2 powr of_int (exponent x + 1)"
proof -
  have "x < 2 powr of_int (\<lfloor>log 2 x\<rfloor> + 1)"
    using assms floor_log_eq_powr_iff [of x 2 "\<lfloor>log 2 x\<rfloor>"] by simp
  also have "\<dots> \<le> 2 powr of_int (exponent x + 1)"
    using assms by (intro powr_mono) (simp_all add: exponent_def)
  finally show ?thesis .
qed

lemma ge_binade:
  assumes "0 < x" and "- 1022 < exponent x"
  shows "2 powr of_int (exponent x) \<le> x"
proof -
  from assms(2) have e: "exponent x = \<lfloor>log 2 x\<rfloor>"
    using assms(1) by (simp add: exponent_def max_def split: if_splits)
  show ?thesis
    using assms(1) floor_log_eq_powr_iff [of x 2 "\<lfloor>log 2 x\<rfloor>"] by (simp add: e)
qed

lemma to_double_pos_eq: "0 < x \<Longrightarrow> to_double x = ulp x * of_int (round_half_even (x / ulp x))"
  by (simp add: to_double_def)

lemma to_double_le_next_binade:
  assumes "0 < x"
  shows "to_double x \<le> 2 powr of_int (exponent x + 1)"
proof -
  have "x / ulp x \<le> 2 powr 53"
  proof -
    have "x / ulp x \<le> 2 powr of_int (exponent x + 1) / ulp x"
      using less_next_binade [OF assms] ulp_pos [of x] by (simp add: divide_right_mono)
    also have "\<dots> = 2 powr 53"
      by (simp add: ulp_def powr_diff [symmetric])
    finally show ?thesis .
  qed
  then have "x / ulp x \<le> of_int (2 ^ 53)"
    by (simp add: two_powr_53)
  then have "round_half_even (x / ulp x) \<le> 2 ^ 53"
    by (rule round_half_even_le)
  then have "of_int (round_half_even (x / ulp x)) \<le> (2::real) ^ 53"
    by (metis of_int_le_iff of_int_numeral of_int_power)
  then have "to_double x \<le> ulp x * 2 ^ 53"
    using assms ulp_pos [of x] by (simp add: to_double_pos_eq)
  also have "\<dots> = 2 powr of_int (exponent x + 1)"
  proof -
    have "ulp x * 2 powr 53 = 2 powr (of_int (exponent x) - 52 + 53)"
      unfolding ulp_def by (rule powr_add [symmetric])
    then show ?thesis
      by (simp add: two_powr_53 add.commute)
  qed
  finally show ?thesis .
qed

lemma to_double_ge_binade:
  assumes "0 < x" and "- 1022 < exponent x"
  shows "2 powr of_int (exponent x) \<le> to_double x"
proof -
  have "2 powr 52 \<le> x / ulp x"
  proof -
    have "2 powr 52 = 2 powr of_int (exponent x) / ulp x"
      by (simp add: ulp_def powr_diff [symmetric])
    also have "\<dots> \<le> x / ulp x"
      using ge_binade [OF assms] ulp_pos [of x] by (simp add: divide_right_mono)
    finally show ?thesis .
  qed
  then have "of_int (2 ^ 52) \<le> x / ulp x"
    by (simp add: two_powr_52)
  then have "2 ^ 52 \<le> round_half_even (x / ulp x)"
    by (rule round_half_even_ge)
  then have "(2::real) ^ 52 \<le> of_int (round_half_even (x / ulp x))"
    by (metis of_int_le_iff of_int_numeral of_int_power)
  then have "ulp x * 2 ^ 52 \<le> to_double x"
    using assms ulp_pos [of x] by (simp add: to_double_pos_eq)
  moreover have "ulp x * 2 ^ 52 = 2 powr of_int (exponent x)"
  proof -
    have "ulp x * 2 powr 52 = 2 powr (of_int (exponent x) - 52 + 52)"
      unfolding ulp_def by (rule powr_add [symmetric])
    then show ?thesis
      by (simp add: two_powr_52)
  qed
  ultimately show ?thesis
    by simp
qed

lemma to_double_mono_pos:
  assumes "0 < x" and "x \<le> y"
  shows "to_double x \<le> to_double y"
proof -
  have y: "0 < y"
    using assms by simp
  have le: "exponent x \<le> exponent y"
    using assms by (rule exponent_mono)
  show ?thesis
  proof (cases "exponent x = exponent y")
    case True
    then have u: "ulp x = ulp y"
      by (simp add: ulp_def)
    have "x / ulp y \<le> y / ulp y"
      using assms(2) ulp_pos [of y] by (simp add: divide_right_mono)
    then have "round_half_even (x / ulp y) \<le> round_half_even (y / ulp y)"
      by (rule round_half_even_mono)
    then show ?thesis
      using assms(1) y ulp_pos [of y] by (simp add: to_double_pos_eq u)
  next
    case False
    with le have lt: "exponent x + 1 \<le> exponent y"
      by simp
    have "- 1022 \<le> exponent x"
      by (simp add: exponent_def)
    with lt have big: "- 1022 < exponent y"
      by simp
    have "to_double x \<le> 2 powr of_int (exponent x + 1)"
      using assms(1) by (rule to_double_le_next_binade)
    also have "\<dots> \<le> 2 powr of_int (exponent y)"
      using lt by (intro powr_mono) simp_all
    also have "\<dots> \<le> to_double y"
      using y big by (rule to_double_ge_binade)
    finally show ?thesis .
  qed
qed

lemma to_double_nonneg: "0 \<le> x \<Longrightarrow> 0 \<le> to_double x"
proof (cases "x = 0")
  case True
  then show ?thesis
    by (simp add: to_double_def)
next
  case False
  assume "0 \<le> x"
  with False have "0 < x"
    by simp
  then have "0 \<le> round_half_even (x / ulp x)"
    using ulp_pos [of x] by (intro round_half_even_ge) simp
  then show ?thesis
    using \<open>0 < x\<close> ulp_pos [of x] by (simp add: to_double_pos_eq)
qed

lemma to_double_mono: "0 \<le> x \<Longrightarrow> x \<le> y \<Longrightarrow> to_double x \<le> to_double y"
  using to_double_mono_pos [of x y] to_double_nonneg [of y] by (cases "x = 0") (simp_all add: to_double_def)

lemma to_double_exact:
  assumes "0 < x" and "2 powr of_int e \<le> x" and "x < 2 powr of_int (e + 1)" and "- 1022 \<le> e"
    and "x = 2 powr (of_int e - 52) * of_int k"
  shows "to_double x = x"
proof -
  have "\<lfloor>log 2 x\<rfloor> = e"
    using assms(1-3) by (subst floor_log_eq_powr_iff) simp_all
  then have "exponent x = e"
    using assms(1,4) by (simp add: exponent_def)
  then have u: "ulp x = 2 powr (of_int e - 52)"
    by (simp add: ulp_def)
  have q: "x / ulp x = of_int k"
    unfolding u by (subst assms(5)) simp
  have "to_double x = ulp x * of_int k"
    using assms(1) by (simp add: to_double_pos_eq q)
  also have "\<dots> = x"
    unfolding u by (rule assms(5) [symmetric])
  finally show ?thesis .
qed

lemma to_double_4: "to_double 4 = 4"
  by (rule to_double_exact [where e = 2 and k = "2 ^ 52"])
     (simp_all add: powr_minus powr_realpow [of 2 50, simplified])


lemma to_double_1: "to_double 1 = 1"
  by (rule to_double_exact [where e = 0 and k = "2 ^ 52"])
     (simp_all add: powr_minus powr_realpow [of 2 52, simplified])

lemma to_double_below_4: "to_double (4 - 1 / 2 ^ 51) = 4 - 1 / 2 ^ 51"
  by (rule to_double_exact [where e = 1 and k = "2 ^ 53 - 1"])
     (simp_all add: powr_minus powr_realpow [of 2 51, simplified] field_simps)

lemma ln_2_bounds: "0 < ln (2::real)" "ln (2::real) \<le> 1"
  using ln_le_minus_one [of "2::real"] by simp_all

lemma ln_1024: "ln (1024::real) = 10 * ln 2"
  using ln_realpow [of "2::real" 10] by simp

lemma ln_2_40: "ln (1099511627776::real) = 40 * ln 2"
  using ln_realpow [of "2::real" 40] by simp

lemma ln_below_2_40: "ln (1099511627775::real) \<le> 40 * ln 2 - 1 / 2 ^ 40"
proof -
  have "ln (1099511627775::real) = ln (1099511627776 * (1 - 1 / 2 ^ 40))"
    by simp
  also have "\<dots> = ln 1099511627776 + ln (1 - 1 / 2 ^ 40 :: real)"
    by (rule ln_mult_pos) simp_all
  also have "\<dots> \<le> 40 * ln 2 + (1 - 1 / 2 ^ 40 - 1)"
    unfolding ln_2_40 by (intro add_left_mono ln_le_minus_one) simp
  finally show ?thesis
    by simp
qed

lemma ln_above_2_40: "40 * ln 2 + 1 / 2 ^ 41 \<le> ln (1099511627777::real)"
proof -
  have "(1 / 2 ^ 41 :: real) \<le> 1 / 2 ^ 40 - (1 / 2 ^ 40)\<^sup>2"
    by (simp add: power2_eq_square)
  also have "\<dots> \<le> ln (1 + 1 / 2 ^ 40 :: real)"
    by (rule ln_one_plus_pos_lower_bound) simp_all
  finally have "40 * ln 2 + 1 / 2 ^ 41 \<le> ln (1099511627776::real) + ln (1 + 1 / 2 ^ 40 :: real)"
    unfolding ln_2_40 by simp
  also have "\<dots> = ln (1099511627776 * (1 + 1 / 2 ^ 40) :: real)"
    by (rule ln_mult_pos [symmetric]) simp_all
  also have "\<dots> = ln (1099511627777::real)"
    by simp
  finally show ?thesis .
qed

lemma Math_log_bounds:
  assumes "approximates_ln approx" and "1 \<le> n"
  shows "(1 - 1 / 2 ^ 48) * ln (of_int n) \<le> Math_log approx (of_int n)"
    and "Math_log approx (of_int n) \<le> (1 + 1 / 2 ^ 48) * ln (of_int n)"
proof -
  have "(1 - 1 / 2 ^ 48) * ln (of_int n) \<le> Math_log approx (of_int n)
      \<and> Math_log approx (of_int n) \<le> (1 + 1 / 2 ^ 48) * ln (of_int n)"
  proof (cases "n = 1")
    case True
    then show ?thesis
      by (simp add: Math_log_def)
  next
    case False
    with assms(2) have "2 \<le> n"
      by simp
    with assms(1) have "\<bar>approx (of_int n) - ln (of_int n)\<bar> \<le> ln (of_int n) / 2 ^ 48"
      by (simp add: approximates_ln_def)
    then have "approx (of_int n) - ln (of_int n) \<le> ln (of_int n) / 2 ^ 48"
      and "ln (of_int n) - approx (of_int n) \<le> ln (of_int n) / 2 ^ 48"
      by linarith+
    with False show ?thesis
      by (simp add: Math_log_def algebra_simps)
  qed
  then show "(1 - 1 / 2 ^ 48) * ln (of_int n) \<le> Math_log approx (of_int n)"
    and "Math_log approx (of_int n) \<le> (1 + 1 / 2 ^ 48) * ln (of_int n)"
    by simp_all
qed

lemma Math_log_1024:
  assumes "approximates_ln approx"
  shows "(1 - 1 / 2 ^ 48) * (10 * ln 2) \<le> Math_log approx 1024"
    and "Math_log approx 1024 \<le> (1 + 1 / 2 ^ 48) * (10 * ln 2)"
    and "0 < Math_log approx 1024"
proof -
  show a: "(1 - 1 / 2 ^ 48) * (10 * ln 2) \<le> Math_log approx 1024"
    using Math_log_bounds(1) [OF assms, of 1024] by (simp add: ln_1024)
  show "Math_log approx 1024 \<le> (1 + 1 / 2 ^ 48) * (10 * ln 2)"
    using Math_log_bounds(2) [OF assms, of 1024] by (simp add: ln_1024)
  have "0 < (1 - 1 / 2 ^ 48) * (10 * ln (2::real))"
    using ln_2_bounds(1) by simp
  with a show "0 < Math_log approx 1024"
    by linarith
qed

lemma unit_index_nonneg:
  assumes "approximates_ln approx" and "1 \<le> bytes"
  shows "0 \<le> unit_index approx bytes"
proof -
  have "0 \<le> ln (real_of_int bytes)"
    using assms(2) by simp
  then have "0 \<le> (1 - 1 / 2 ^ 48) * ln (real_of_int bytes)"
    by simp
  then have "0 \<le> Math_log approx (of_int bytes)"
    using Math_log_bounds(1) [OF assms] by linarith
  then have "0 \<le> Math_log approx (of_int bytes) / Math_log approx 1024"
    using Math_log_1024(3) [OF assms(1)] by simp
  then have "0 \<le> to_double (Math_log approx (of_int bytes) / Math_log approx 1024)"
    by (rule to_double_nonneg)
  then show ?thesis
    by (simp add: unit_index_def)
qed

lemma unit_index_less:
  assumes "approximates_ln approx" and "1 \<le> bytes" and "bytes < 1024 ^ 4"
  shows "unit_index approx bytes < 4"
proof -
  define t where "t = ln (2::real)"
  define a where "a = Math_log approx (of_int bytes)"
  define b where "b = Math_log approx 1024"
  have t: "0 < t" "t \<le> 1"
    using ln_2_bounds by (simp_all add: t_def)
  have "real_of_int bytes \<le> 1099511627775"
    using assms(3) by simp
  then have "ln (real_of_int bytes) \<le> ln 1099511627775"
    using assms(2) by (intro ln_mono) simp_all
  then have "ln (real_of_int bytes) \<le> 40 * t - 1 / 2 ^ 40"
    using ln_below_2_40 by (simp add: t_def)
  then have "(1 + 1 / 2 ^ 48) * ln (real_of_int bytes) \<le> (1 + 1 / 2 ^ 48) * (40 * t - 1 / 2 ^ 40)"
    by (intro mult_left_mono) simp_all
  then have a: "a \<le> (1 + 1 / 2 ^ 48) * (40 * t - 1 / 2 ^ 40)"
    using Math_log_bounds(2) [OF assms(1,2)] by (simp add: a_def)
  have b: "(1 - 1 / 2 ^ 48) * (10 * t) \<le> b" "0 < b"
    using Math_log_1024 [OF assms(1)] by (simp_all add: b_def t_def)
  have "(1 + 1 / 2 ^ 48) * (40 * t - 1 / 2 ^ 40) \<le> (4 - 1 / 2 ^ 51) * ((1 - 1 / 2 ^ 48) * (10 * t))"
    using t by (simp add: algebra_simps)
  also have "\<dots> \<le> (4 - 1 / 2 ^ 51) * b"
    using b(1) by (intro mult_left_mono) simp_all
  finally have "a \<le> (4 - 1 / 2 ^ 51) * b"
    using a by linarith
  then have q: "a / b \<le> 4 - 1 / 2 ^ 51"
    using b(2) by (simp add: pos_divide_le_eq)
  have "0 \<le> a"
  proof -
    have "0 \<le> (1 - 1 / 2 ^ 48) * ln (real_of_int bytes)"
      using assms(2) by simp
    then show ?thesis
      using Math_log_bounds(1) [OF assms(1,2)] by (simp add: a_def)
  qed
  then have "0 \<le> a / b"
    using b(2) by simp
  then have "to_double (a / b) \<le> to_double (4 - 1 / 2 ^ 51)"
    using q by (rule to_double_mono)
  then have "to_double (a / b) < 4"
    unfolding to_double_below_4 by simp
  then show ?thesis
    by (simp add: unit_index_def a_def b_def floor_less_iff)
qed

lemma unit_index_ge_quotient:
  assumes "0 < Math_log approx 1024"
    and "4 * Math_log approx 1024 \<le> Math_log approx (of_int bytes)"
  shows "4 \<le> unit_index approx bytes"
proof -
  have "4 \<le> Math_log approx (of_int bytes) / Math_log approx 1024"
    using assms by (simp add: pos_le_divide_eq)
  then have "to_double 4 \<le> to_double (Math_log approx (of_int bytes) / Math_log approx 1024)"
    by (intro to_double_mono) simp_all
  then show ?thesis
    by (simp add: unit_index_def to_double_4 le_floor_iff)
qed

lemma unit_index_ge:
  assumes "approximates_ln approx" and "1024 ^ 4 < bytes"
  shows "4 \<le> unit_index approx bytes"
proof -
  define t where "t = ln (2::real)"
  have t: "0 < t" "t \<le> 1"
    using ln_2_bounds by (simp_all add: t_def)
  have one: "1 \<le> bytes"
    using assms(2) by simp
  have "(1099511627777::real) \<le> real_of_int bytes"
    using assms(2) by simp
  then have "ln (1099511627777::real) \<le> ln (real_of_int bytes)"
    by (intro ln_mono) simp_all
  then have "40 * t + 1 / 2 ^ 41 \<le> ln (real_of_int bytes)"
    using ln_above_2_40 by (simp add: t_def)
  then have "(1 - 1 / 2 ^ 48) * (40 * t + 1 / 2 ^ 41) \<le> (1 - 1 / 2 ^ 48) * ln (real_of_int bytes)"
    by (intro mult_left_mono) simp_all
  then have a: "(1 - 1 / 2 ^ 48) * (40 * t + 1 / 2 ^ 41) \<le> Math_log approx (of_int bytes)"
    using Math_log_bounds(1) [OF assms(1) one] by simp
  have b: "Math_log approx 1024 \<le> (1 + 1 / 2 ^ 48) * (10 * t)"
    using Math_log_1024(2) [OF assms(1)] by (simp add: t_def)
  have "4 * ((1 + 1 / 2 ^ 48) * (10 * t)) \<le> (1 - 1 / 2 ^ 48) * (40 * t + 1 / 2 ^ 41)"
    using t by (simp add: algebra_simps)
  with a b have "4 * Math_log approx 1024 \<le> Math_log approx (of_int bytes)"
    by linarith
  with Math_log_1024(3) [OF assms(1)] show ?thesis
    by (rule unit_index_ge_quotient)
qed

lemma sizes_nth:
  assumes "0 \<le> i" and "i < 4"
  shows "sizes_at i = sizes ! nat i" and "sizes ! nat i \<in> set sizes"
proof -
  from assms have "i = 0 \<or> i = 1 \<or> i = 2 \<or> i = 3"
    by arith
  then show "sizes_at i = sizes ! nat i" and "sizes ! nat i \<in> set sizes"
    by (auto simp: sizes_at_def sizes_def)
qed

lemma formatBytes_pos:
  "0 < bytes \<Longrightarrow>
   formatBytes approx bytes =
     fixed2 (to_double (of_int bytes / 1024 powr of_int (unit_index approx bytes))) @ '' ''
     @ sizes_at (unit_index approx bytes)"
  by (simp add: formatBytes_def Let_def)

lemma formatBytes_large:
  assumes "0 < bytes" and "4 \<le> unit_index approx bytes"
  shows "int (length sizes) - 1 < unit_index approx bytes
      \<and> formatBytes approx bytes =
          fixed2 (to_double (of_int bytes / 1024 powr of_int (unit_index approx bytes)))
          @ '' undefined''"
  using assms by (simp add: formatBytes_pos sizes_at_def sizes_def)

text \<open>
  C9. \<^verbatim>\<open>formatBytes(0)\<close> is "0 Bytes". Let the engine's \<^verbatim>\<open>Math.log\<close> approximate the
  natural logarithm of every integer from 2 on with a relative error of at most
  \<open>1 / 2 ^ 48\<close>, sixteen units in the last place of a double. Then for every integer from 1
  up to, not including, \<open>1024 ^ 4\<close> the unit index, the rounded quotient of the two
  logarithms rounded down, lies within the bounds of \<open>sizes\<close>, and the result is the printed
  number, a space and the unit at that index, so it ends in one of the four units. For
  every integer above \<open>1024 ^ 4\<close> the index is beyond the last position of \<open>sizes\<close> and the
  result ends in "undefined"; so it is at \<open>1024 ^ 4\<close> itself when the engine's logarithm of
  \<open>1024 ^ 4\<close> is no less than four times its logarithm of 1024.
\<close>

theorem formatBytes_units:
  assumes "approximates_ln approx"
  shows "formatBytes approx 0 = ''0 Bytes''
   \<and> (1 \<le> bytes \<and> bytes < 1024 ^ 4 \<longrightarrow>
        0 \<le> unit_index approx bytes \<and> unit_index approx bytes < int (length sizes)
      \<and> formatBytes approx bytes =
          fixed2 (to_double (of_int bytes / 1024 powr of_int (unit_index approx bytes))) @ '' ''
          @ sizes ! nat (unit_index approx bytes)
      \<and> sizes ! nat (unit_index approx bytes) \<in> set [''Bytes'', ''KB'', ''MB'', ''GB'']
      \<and> suffix (sizes ! nat (unit_index approx bytes)) (formatBytes approx bytes))
   \<and> (1024 ^ 4 < bytes \<longrightarrow>
        int (length sizes) - 1 < unit_index approx bytes
      \<and> formatBytes approx bytes =
          fixed2 (to_double (of_int bytes / 1024 powr of_int (unit_index approx bytes)))
          @ '' undefined'')
   \<and> (4 * Math_log approx 1024 \<le> Math_log approx (1024 ^ 4) \<longrightarrow>
        int (length sizes) - 1 < unit_index approx (1024 ^ 4)
      \<and> formatBytes approx (1024 ^ 4) =
          fixed2 (to_double (of_int (1024 ^ 4) / 1024 powr of_int (unit_index approx (1024 ^ 4))))
          @ '' undefined'')"
proof -
  have zero: "formatBytes approx 0 = ''0 Bytes''"
    by (simp add: formatBytes_def)
  have small: "0 \<le> unit_index approx bytes \<and> unit_index approx bytes < int (length sizes)
      \<and> formatBytes approx bytes =
          fixed2 (to_double (of_int bytes / 1024 powr of_int (unit_index approx bytes))) @ '' ''
          @ sizes ! nat (unit_index approx bytes)
      \<and> sizes ! nat (unit_index approx bytes) \<in> set [''Bytes'', ''KB'', ''MB'', ''GB'']
      \<and> suffix (sizes ! nat (unit_index approx bytes)) (formatBytes approx bytes)"
    if "1 \<le> bytes" and "bytes < 1024 ^ 4"
  proof -
    have lo: "0 \<le> unit_index approx bytes"
      using assms that(1) by (rule unit_index_nonneg)
    have hi: "unit_index approx bytes < 4"
      using assms that by (rule unit_index_less)
    have eq: "formatBytes approx bytes =
          fixed2 (to_double (of_int bytes / 1024 powr of_int (unit_index approx bytes))) @ '' ''
          @ sizes ! nat (unit_index approx bytes)"
      using that(1) by (simp add: formatBytes_pos sizes_nth(1) [OF lo hi])
    have "suffix (sizes ! nat (unit_index approx bytes)) (formatBytes approx bytes)"
      unfolding eq by (metis append.assoc suffixI)
    with lo hi eq sizes_nth(2) [OF lo hi] show ?thesis
      by (simp add: sizes_def)
  qed
  have large: "int (length sizes) - 1 < unit_index approx bytes
      \<and> formatBytes approx bytes =
          fixed2 (to_double (of_int bytes / 1024 powr of_int (unit_index approx bytes)))
          @ '' undefined''"
    if "1024 ^ 4 < bytes"
  proof (rule formatBytes_large)
    show "0 < bytes"
      using that by simp
    show "4 \<le> unit_index approx bytes"
      using assms that by (rule unit_index_ge)
  qed
  have edge: "int (length sizes) - 1 < unit_index approx (1024 ^ 4)
      \<and> formatBytes approx (1024 ^ 4) =
          fixed2 (to_double (of_int (1024 ^ 4) / 1024 powr of_int (unit_index approx (1024 ^ 4))))
          @ '' undefined''"
    if "4 * Math_log approx 1024 \<le> Math_log approx (1024 ^ 4)"
  proof (rule formatBytes_large)
    show "(0::int) < 1024 ^ 4"
      by simp
    show "4 \<le> unit_index approx (1024 ^ 4)"
      using Math_log_1024(3) [OF assms] that by (intro unit_index_ge_quotient) simp_all
  qed
  from zero small large edge show ?thesis
    by blast
qed

text \<open>
  An engine whose logarithm is correctly rounded satisfies both conditions: rounding to
  the nearest double errs by at most one part in \<open>2 ^ 53\<close>, and commutes with a scaling by
  four.
\<close>

lemma ln_2_ge_half: "1 / 2 \<le> ln (2::real)"
  using exp_half_le2 ln_ge_iff [of 2 "1 / 2"] by simp

lemma exponent_ge_half:
  assumes "1 / 2 \<le> y"
  shows "- 1022 < exponent y"
proof -
  have "log 2 (1 / 2) \<le> log 2 y"
    using assms by (intro log_mono) simp_all
  then have "- 1 \<le> log 2 y"
    by (simp add: log_divide)
  then have "- 1 \<le> \<lfloor>log 2 y\<rfloor>"
    by (simp add: le_floor_iff)
  then show ?thesis
    using assms by (simp add: exponent_def)
qed

lemma to_double_error:
  assumes "0 < y" and "- 1022 < exponent y"
  shows "\<bar>to_double y - y\<bar> \<le> y / 2 ^ 53"
proof -
  define m where "m = y / ulp y"
  have y: "y = ulp y * m"
    using ulp_pos [of y] by (simp add: m_def)
  have "\<bar>of_int (round_half_even m) - m\<bar> \<le> 1 / 2"
    using round_half_even_bounds [of m] by linarith
  then have "ulp y * \<bar>of_int (round_half_even m) - m\<bar> \<le> ulp y * (1 / 2)"
    using ulp_pos [of y] by (intro mult_left_mono) simp_all
  moreover have "to_double y - y = ulp y * (of_int (round_half_even m) - m)"
    using assms(1) y by (simp add: to_double_pos_eq m_def algebra_simps)
  ultimately have e: "\<bar>to_double y - y\<bar> \<le> ulp y / 2"
    using ulp_pos [of y] by (simp add: abs_mult)
  have "ulp y * 2 powr 52 = 2 powr (of_int (exponent y) - 52 + 52)"
    unfolding ulp_def by (rule powr_add [symmetric])
  then have "ulp y * 2 ^ 52 = 2 powr of_int (exponent y)"
    by (simp add: two_powr_52)
  also have "\<dots> \<le> y"
    using assms by (rule ge_binade)
  finally have "ulp y / 2 \<le> y / 2 ^ 53"
    by simp
  with e show ?thesis
    by linarith
qed

lemma correctly_rounded_approximates: "approximates_ln correctly_rounded"
  unfolding approximates_ln_def
proof (intro allI impI)
  fix n :: int
  assume n: "2 \<le> n"
  have "ln 2 \<le> ln (real_of_int n)"
    using n by (intro ln_mono) simp_all
  then have h: "1 / 2 \<le> ln (real_of_int n)"
    using ln_2_ge_half by linarith
  then have "\<bar>to_double (ln (real_of_int n)) - ln (real_of_int n)\<bar> \<le> ln (real_of_int n) / 2 ^ 53"
    by (intro to_double_error exponent_ge_half) simp_all
  also have "\<dots> \<le> ln (real_of_int n) / 2 ^ 48"
    using h by (intro divide_left_mono) simp_all
  finally show "\<bar>correctly_rounded (real_of_int n) - ln (real_of_int n)\<bar> \<le> ln (real_of_int n) / 2 ^ 48"
    by (simp add: correctly_rounded_def)
qed

lemma to_double_scale4:
  assumes "0 < y" and "- 1022 < exponent y"
  shows "to_double (4 * y) = 4 * to_double y"
proof -
  have e: "exponent y = \<lfloor>log 2 y\<rfloor>"
    using assms by (simp add: exponent_def max_def split: if_splits)
  have "log 2 (4 * y) = 2 + log 2 y"
    using assms(1) log_mult [of 2 4 y] log_pow_cancel [of 2 2] by simp
  then have "\<lfloor>log 2 (4 * y)\<rfloor> = \<lfloor>log 2 y\<rfloor> + 2"
    by simp
  then have "exponent (4 * y) = exponent y + 2"
    using assms by (simp add: exponent_def e)
  then have "ulp (4 * y) = 2 powr (of_int (exponent y) - 52 + 2)"
    by (simp add: ulp_def algebra_simps)
  also have "\<dots> = ulp y * 2 powr 2"
    unfolding ulp_def by (rule powr_add)
  finally have u: "ulp (4 * y) = 4 * ulp y"
    using powr_realpow [of 2 2] by simp
  show ?thesis
    using assms(1) ulp_pos [of y] by (simp add: to_double_pos_eq u)
qed

lemma correctly_rounded_1024_4:
  "Math_log correctly_rounded (1024 ^ 4) = 4 * Math_log correctly_rounded 1024"
proof -
  have "ln ((1024::real) ^ 4) = 4 * ln 1024"
    using ln_realpow [of "1024::real" 4] by simp
  moreover have "1 / 2 \<le> ln (1024::real)"
    using ln_2_ge_half by (simp add: ln_1024)
  ultimately show ?thesis
    by (simp add: Math_log_def correctly_rounded_def to_double_scale4 exponent_ge_half)
qed


lemma to_double_3_2: "to_double (3 / 2) = 3 / 2"
  by (rule to_double_exact [where e = 0 and k = "3 * 2 ^ 51"])
     (simp_all add: powr_minus powr_realpow [of 2 52, simplified])

lemma to_double_last: "to_double (1099511627775 / 1073741824) = 1099511627775 / 1073741824"
  by (rule to_double_exact [where e = 9 and k = "1099511627775 * 2 ^ 13"])
     (simp_all add: powr_minus powr_diff powr_realpow [of 2 52, simplified]
        powr_realpow [of 2 9, simplified] powr_realpow [of 2 10, simplified])

lemma ln_1536: "10 * ln 2 + 1 / 4 \<le> ln (1536::real)" "ln (1536::real) \<le> 10 * ln 2 + 1 / 2"
proof -
  have "ln (1536::real) = ln (1024 * (3 / 2))"
    by simp
  also have "\<dots> = ln 1024 + ln (3 / 2 :: real)"
    by (rule ln_mult_pos) simp_all
  finally have e: "ln (1536::real) = 10 * ln 2 + ln (3 / 2 :: real)"
    by (simp add: ln_1024)
  have "(1 / 4 :: real) = 1 / 2 - (1 / 2)\<^sup>2"
    by (simp add: power2_eq_square)
  also have "\<dots> \<le> ln (1 + 1 / 2 :: real)"
    by (rule ln_one_plus_pos_lower_bound) simp_all
  finally have "(1 / 4 :: real) \<le> ln (3 / 2)"
    by simp
  with e show "10 * ln 2 + 1 / 4 \<le> ln (1536::real)"
    by simp
  have "ln (3 / 2 :: real) \<le> 3 / 2 - 1"
    by (rule ln_le_minus_one) simp
  with e show "ln (1536::real) \<le> 10 * ln 2 + 1 / 2"
    by simp
qed

lemma unit_index_1536: "unit_index correctly_rounded 1536 = 1"
proof -
  define t where "t = ln (2::real)"
  define a where "a = Math_log correctly_rounded 1536"
  define b where "b = Math_log correctly_rounded 1024"
  note acc = correctly_rounded_approximates
  have t: "1 / 2 \<le> t" "t \<le> 1"
    using ln_2_ge_half ln_2_bounds(2) by (simp_all add: t_def)
  have b: "(1 - 1 / 2 ^ 48) * (10 * t) \<le> b" "b \<le> (1 + 1 / 2 ^ 48) * (10 * t)" "0 < b"
    using Math_log_1024 [OF acc] by (simp_all add: b_def t_def)
  have "(1 - 1 / 2 ^ 48) * (10 * t + 1 / 4) \<le> (1 - 1 / 2 ^ 48) * ln (1536::real)"
    using ln_1536(1) by (intro mult_left_mono) (simp_all add: t_def)
  then have lo: "(1 - 1 / 2 ^ 48) * (10 * t + 1 / 4) \<le> a"
    using Math_log_bounds(1) [OF acc, of 1536] by (simp add: a_def)
  have "(1 + 1 / 2 ^ 48) * ln (1536::real) \<le> (1 + 1 / 2 ^ 48) * (10 * t + 1 / 2)"
    using ln_1536(2) by (intro mult_left_mono) (simp_all add: t_def)
  then have hi: "a \<le> (1 + 1 / 2 ^ 48) * (10 * t + 1 / 2)"
    using Math_log_bounds(2) [OF acc, of 1536] by (simp add: a_def)
  have "(1 + 1 / 2 ^ 48) * (10 * t) \<le> (1 - 1 / 2 ^ 48) * (10 * t + 1 / 4)"
    using t by (simp add: algebra_simps)
  with lo b(2) have "1 * b \<le> a"
    by linarith
  then have q1: "1 \<le> a / b"
    using b(3) by (simp add: pos_le_divide_eq)
  have "(1 + 1 / 2 ^ 48) * (10 * t + 1 / 2) \<le> 3 / 2 * ((1 - 1 / 2 ^ 48) * (10 * t))"
    using t by (simp add: algebra_simps)
  with hi b(1) have "a \<le> 3 / 2 * b"
    by linarith
  then have q2: "a / b \<le> 3 / 2"
    using b(3) by (simp add: pos_divide_le_eq)
  have "to_double 1 \<le> to_double (a / b)"
    using q1 by (intro to_double_mono) simp_all
  moreover have "to_double (a / b) \<le> to_double (3 / 2)"
    using q1 q2 by (intro to_double_mono) simp_all
  ultimately have "1 \<le> to_double (a / b)" and "to_double (a / b) < 2"
    by (simp_all add: to_double_1 to_double_3_2)
  then have "\<lfloor>to_double (a / b)\<rfloor> = 1"
    by (simp add: floor_eq_iff)
  then show ?thesis
    by (simp add: unit_index_def a_def b_def)
qed

lemma unit_index_last: "unit_index correctly_rounded 1099511627775 = 3"
proof -
  define t where "t = ln (2::real)"
  define a where "a = Math_log correctly_rounded 1099511627775"
  define b where "b = Math_log correctly_rounded 1024"
  note acc = correctly_rounded_approximates
  have t: "1 / 2 \<le> t" "t \<le> 1"
    using ln_2_ge_half ln_2_bounds(2) by (simp_all add: t_def)
  have b: "b \<le> (1 + 1 / 2 ^ 48) * (10 * t)" "0 < b"
    using Math_log_1024(2,3) [OF acc] by (simp_all add: b_def t_def)
  have "ln (549755813888::real) \<le> ln 1099511627775"
    by (intro ln_mono) simp_all
  moreover have "ln (549755813888::real) = 39 * ln 2"
    using ln_realpow [of "2::real" 39] by simp
  ultimately have "39 * t \<le> ln (1099511627775::real)"
    by (simp add: t_def)
  then have "(1 - 1 / 2 ^ 48) * (39 * t) \<le> (1 - 1 / 2 ^ 48) * ln (1099511627775::real)"
    by (intro mult_left_mono) simp_all
  then have lo: "(1 - 1 / 2 ^ 48) * (39 * t) \<le> a"
    using Math_log_bounds(1) [OF acc, of 1099511627775] by (simp add: a_def)
  have "3 * ((1 + 1 / 2 ^ 48) * (10 * t)) \<le> (1 - 1 / 2 ^ 48) * (39 * t)"
    using t by (simp add: algebra_simps)
  with lo b(1) have "3 * b \<le> a"
    by linarith
  then have "3 \<le> a / b"
    using b(2) by (simp add: pos_le_divide_eq)
  then have "to_double 3 \<le> to_double (a / b)"
    by (intro to_double_mono) simp_all
  moreover have "to_double 3 = 3"
    by (rule to_double_exact [where e = 1 and k = "3 * 2 ^ 51"])
       (simp_all add: powr_minus powr_realpow [of 2 51, simplified])
  ultimately have "3 \<le> \<lfloor>to_double (a / b)\<rfloor>"
    by (simp add: le_floor_iff)
  then have "3 \<le> unit_index correctly_rounded 1099511627775"
    by (simp add: unit_index_def a_def b_def)
  moreover have "unit_index correctly_rounded 1099511627775 < 4"
    by (rule unit_index_less [OF acc]) simp_all
  ultimately show ?thesis
    by simp
qed

lemma unit_index_edge: "unit_index correctly_rounded 1099511627776 = 4"
proof -
  have "Math_log correctly_rounded 1099511627776 = 4 * Math_log correctly_rounded 1024"
    using correctly_rounded_1024_4 by simp
  moreover have "Math_log correctly_rounded 1024 \<noteq> 0"
    using Math_log_1024(3) [OF correctly_rounded_approximates] by simp
  ultimately show ?thesis
    by (simp add: unit_index_def to_double_4)
qed

lemma formatBytes_examples:
  "formatBytes correctly_rounded 1536 = ''1.5 KB''"
  "formatBytes correctly_rounded 1099511627775 = ''1024 GB''"
  "formatBytes correctly_rounded 1099511627776 = ''1 undefined''"
  by (simp_all add: formatBytes_def Let_def unit_index_1536 unit_index_last unit_index_edge
      to_double_3_2 to_double_last to_double_1 sizes_at_def sizes_def fixed2_def
      show_nat.simps digit_char_def)

text \<open>
  With the correctly rounded logarithm: one and a half kilobytes, the last size below
  \<open>1024 ^ 4 = 1099511627776\<close>, the first above it, and \<open>1024 ^ 4\<close> itself.
\<close>

theorem formatBytes_units_witness:
  "approximates_ln correctly_rounded
   \<and> (1::int) \<le> 1536 \<and> (1536::int) < 1024 ^ 4
   \<and> unit_index correctly_rounded 1536 < int (length sizes)
   \<and> sizes ! nat (unit_index correctly_rounded 1536) = ''KB''
   \<and> formatBytes correctly_rounded 1536 = ''1.5 KB''
   \<and> (1099511627775::int) < 1024 ^ 4
   \<and> formatBytes correctly_rounded 1099511627775 = ''1024 GB''
   \<and> (1024::int) ^ 4 < 1099511627777
   \<and> int (length sizes) - 1 < unit_index correctly_rounded 1099511627777
   \<and> 4 * Math_log correctly_rounded 1024 \<le> Math_log correctly_rounded (1024 ^ 4)
   \<and> int (length sizes) - 1 < unit_index correctly_rounded (1024 ^ 4)
   \<and> formatBytes correctly_rounded 1099511627776 = ''1 undefined''"
proof -
  note units = formatBytes_units [OF correctly_rounded_approximates]
  have h: "(1::int) \<le> 1536 \<and> (1536::int) < 1024 ^ 4"
    by simp
  have k: "(1099511627775::int) < 1024 ^ 4" "(1024::int) ^ 4 < 1099511627777"
    by simp_all
  have e: "4 * Math_log correctly_rounded 1024 \<le> Math_log correctly_rounded (1024 ^ 4)"
    using correctly_rounded_1024_4 by simp
  from units [of 1536] h have a: "unit_index correctly_rounded 1536 < int (length sizes)"
    by blast
  from units [of 1099511627777] k
  have b: "int (length sizes) - 1 < unit_index correctly_rounded 1099511627777"
    by blast
  from units [of 1536] e
  have c: "int (length sizes) - 1 < unit_index correctly_rounded (1024 ^ 4)"
    by blast
  have d: "sizes ! nat (unit_index correctly_rounded 1536) = ''KB''"
    by (simp add: unit_index_1536 sizes_def)
  from correctly_rounded_approximates h k e a b c d formatBytes_examples show ?thesis
    by blast
qed


subsection \<open>The backend of the model: sessions\<close>

lemma sessions_issue:
  "sessions (issue b user T0 tok) tok =
     Some \<lparr>session_username = user, issued_at = T0, expires_at = T0 + 24 * 60 * 60\<rparr>"
  by (simp add: issue_def fixed_ttl_def)

text \<open>
  C7. A session issued at \<open>T0\<close> expires at \<open>T0\<close> plus 24 hours. Through any later logins
  and logouts of the gateway that neither draw nor log out its token, validating the token
  succeeds (with the session's username) at every time before the expiry and fails with
  Unauthorized at every time from the expiry on, one second past it for instance. Once
  the token is revoked, validation fails at every time.
\<close>

theorem issue_validate:
  "(\<exists>s. sessions (issue b user T0 tok) tok = Some s \<and> issued_at s = T0
        \<and> expires_at s = T0 + 24 * 60 * 60)
   \<and> (tok \<notin> drawn calls \<and> tok \<notin> logged_out_tokens calls \<longrightarrow>
        validate (gateway (issue b user T0 tok) calls) tok now =
          (if now < T0 + 24 * 60 * 60 then Inr user else Inl Unauthorized))
   \<and> validate (issue b user T0 tok) tok (T0 + 24 * 60 * 60 + 1) = Inl Unauthorized
   \<and> (tok \<notin> drawn calls \<longrightarrow>
        validate (gateway (revoke (issue b user T0 tok) tok) calls) tok now = Inl Unauthorized)"
proof -
  have b: "tok \<notin> drawn calls \<Longrightarrow> tok \<notin> logged_out_tokens calls \<Longrightarrow>
        validate (gateway (issue b user T0 tok) calls) tok now =
          (if now < T0 + 24 * 60 * 60 then Inr user else Inl Unauthorized)"
    by (simp add: validate_def sessions_gateway_untouched sessions_issue)
  have c: "validate (issue b user T0 tok) tok (T0 + 24 * 60 * 60 + 1) = Inl Unauthorized"
    by (simp add: validate_def sessions_issue)
  have d: "tok \<notin> drawn calls \<Longrightarrow>
        validate (gateway (revoke (issue b user T0 tok) tok) calls) tok now = Inl Unauthorized"
    by (simp add: validate_def sessions_gateway_revoked revoke_def)
  from b c d show ?thesis
    by (simp add: sessions_issue)
qed

text \<open>
  A token issued at second 10, validated after another login: one second before the
  expiry, at the expiry, and after a logout.
\<close>

theorem issue_validate_witness:
  "''t0k3n'' \<notin> drawn [Login ''alice'' ''secret'' 50 ''0th3r'']
   \<and> ''t0k3n'' \<notin> logged_out_tokens [Login ''alice'' ''secret'' 50 ''0th3r'']
   \<and> validate (gateway (issue provisioned ''alice'' 10 ''t0k3n'')
                  [Login ''alice'' ''secret'' 50 ''0th3r'']) ''t0k3n'' 86409 = Inr ''alice''
   \<and> validate (gateway (issue provisioned ''alice'' 10 ''t0k3n'')
                  [Login ''alice'' ''secret'' 50 ''0th3r'']) ''t0k3n'' 86410 = Inl Unauthorized
   \<and> validate (gateway (revoke (issue provisioned ''alice'' 10 ''t0k3n'') ''t0k3n'')
                  [Login ''alice'' ''secret'' 50 ''0th3r'']) ''t0k3n'' 11 = Inl Unauthorized"
proof -
  have h: "''t0k3n'' \<notin> drawn [Login ''alice'' ''secret'' 50 ''0th3r'']"
    "''t0k3n'' \<notin> logged_out_tokens [Login ''alice'' ''secret'' 50 ''0th3r'']"
    by simp_all
  from issue_validate
         [where tok = "''t0k3n''" and calls = "[Login ''alice'' ''secret'' 50 ''0th3r'']"
            and b = provisioned and user = "''alice''" and ?T0.0 = 10 and now = 86409]
       issue_validate
         [where tok = "''t0k3n''" and calls = "[Login ''alice'' ''secret'' 50 ''0th3r'']"
            and b = provisioned and user = "''alice''" and ?T0.0 = 10 and now = 86410]
       issue_validate
         [where tok = "''t0k3n''" and calls = "[Login ''alice'' ''secret'' 50 ''0th3r'']"
            and b = provisioned and user = "''alice''" and ?T0.0 = 10 and now = 11]
  show ?thesis
    using h by simp
qed


subsection \<open>The backend of the model: lockout\<close>

lemma login_locked:
  "is_locked (counters b user) now \<Longrightarrow> login b user password now tok = (Inl LockedOut, b)"
  by (simp add: login_def)

lemma attempts_locked:
  "\<forall>(password, now, tok) \<in> set as. is_locked (counters b user) now \<Longrightarrow>
   attempts b user as = (replicate (length as) (Inl LockedOut), b)"
  by (induction as) (auto simp: login_locked)

lemma credentials_ok_counters:
  "credentials_ok (b\<lparr>counters := c\<rparr>) user password = credentials_ok b user password"
  by (simp add: credentials_ok_def)

lemma five_failures:
  assumes zero: "failure_count (counters b user) = 0"
    and free: "\<not> is_locked (counters b user) t1" "\<not> is_locked (counters b user) t2"
      "\<not> is_locked (counters b user) t3" "\<not> is_locked (counters b user) t4"
      "\<not> is_locked (counters b user) t5"
    and wrong: "\<not> credentials_ok b user p1" "\<not> credentials_ok b user p2"
      "\<not> credentials_ok b user p3" "\<not> credentials_ok b user p4" "\<not> credentials_ok b user p5"
  shows "attempts b user [(p1, t1, k1), (p2, t2, k2), (p3, t3, k3), (p4, t4, k4), (p5, t5, k5)] =
           (replicate 5 (Inl InvalidCredentials), locked_state b user t5)"
  using assms
  by (simp add: login_def record_failure_def threshold_def is_locked_def numeral_eq_Suc
      credentials_ok_counters locked_state_def)

lemma locked_state_is_locked:
  "is_locked (counters (locked_state b user t) user) now \<longleftrightarrow> now < t + lockout_duration"
  by (simp add: locked_state_def is_locked_def)

lemma login_after_lock:
  "credentials_ok b user password \<Longrightarrow> t + lockout_duration \<le> now \<Longrightarrow>
   fst (login (locked_state b user t) user password now tok) = Inr tok
   \<and> failure_count (counters (snd (login (locked_state b user t) user password now tok)) user) = 0
   \<and> validate (snd (login (locked_state b user t) user password now tok)) tok now = Inr user"
  by (simp add: login_def locked_state_def is_locked_def record_success_def issue_def
      validate_def fixed_ttl_def credentials_ok_counters)

text \<open>
  C6. For any identity: let five login attempts with wrong credentials follow one another
  from a counter at zero, none of them made under an earlier lockout. All five fail with
  InvalidCredentials, and from the fifth (made at \<open>t5\<close>) every attempt before \<open>t5\<close> plus
  15 minutes fails with LockedOut and changes nothing, with correct credentials too and
  however many attempts are made. From \<open>t5\<close> plus 15 minutes on, a login with correct
  credentials succeeds, returns a token that validates, and leaves the failure count at 0.
\<close>

theorem lockout_after_five_failures:
  assumes zero: "failure_count (counters b user) = 0"
    and free: "\<not> is_locked (counters b user) t1 \<and> \<not> is_locked (counters b user) t2
      \<and> \<not> is_locked (counters b user) t3 \<and> \<not> is_locked (counters b user) t4
      \<and> \<not> is_locked (counters b user) t5"
    and wrong: "\<not> credentials_ok b user p1 \<and> \<not> credentials_ok b user p2
      \<and> \<not> credentials_ok b user p3 \<and> \<not> credentials_ok b user p4 \<and> \<not> credentials_ok b user p5"
    and right: "credentials_ok b user password"
    and five: "fs = [(p1, t1, k1), (p2, t2, k2), (p3, t3, k3), (p4, t4, k4), (p5, t5, k5)]"
  shows "fst (attempts b user fs) = replicate 5 (Inl InvalidCredentials)
       \<and> (now < t5 + 15 * 60 \<longrightarrow>
            login (snd (attempts b user fs)) user password now tok
              = (Inl LockedOut, snd (attempts b user fs)))
       \<and> ((\<forall>(p, t, k) \<in> set as. t < t5 + 15 * 60) \<longrightarrow>
            attempts (snd (attempts b user fs)) user as
              = (replicate (length as) (Inl LockedOut), snd (attempts b user fs)))
       \<and> (t5 + 15 * 60 \<le> now \<longrightarrow>
            fst (login (snd (attempts b user fs)) user password now tok) = Inr tok
          \<and> failure_count
              (counters (snd (login (snd (attempts b user fs)) user password now tok)) user) = 0
          \<and> validate (snd (login (snd (attempts b user fs)) user password now tok)) tok now
              = Inr user)"
proof -
  have run: "attempts b user fs = (replicate 5 (Inl InvalidCredentials), locked_state b user t5)"
    unfolding five using zero free wrong by (intro five_failures) simp_all
  have d: "lockout_duration = 15 * 60"
    by (simp add: lockout_duration_def)
  have one: "now < t5 + 15 * 60 \<Longrightarrow>
      login (locked_state b user t5) user password now tok = (Inl LockedOut, locked_state b user t5)"
    by (rule login_locked) (simp add: locked_state_is_locked d)
  have many: "(\<forall>(p, t, k) \<in> set as. t < t5 + 15 * 60) \<Longrightarrow>
      attempts (locked_state b user t5) user as
        = (replicate (length as) (Inl LockedOut), locked_state b user t5)"
    by (rule attempts_locked) (auto simp: locked_state_is_locked d)
  have after: "t5 + 15 * 60 \<le> now \<Longrightarrow>
      fst (login (locked_state b user t5) user password now tok) = Inr tok
      \<and> failure_count (counters (snd (login (locked_state b user t5) user password now tok)) user) = 0
      \<and> validate (snd (login (locked_state b user t5) user password now tok)) tok now = Inr user"
    using login_after_lock [OF right] by (simp add: d)
  from one many after show ?thesis
    by (simp add: run)
qed

lemma provisioned_simps:
  "failure_count (counters provisioned user) = 0"
  "\<not> is_locked (counters provisioned user) t"
  "credentials_ok provisioned ''alice'' password \<longleftrightarrow> password = ''secret''"
  by (auto simp: provisioned_def is_locked_def credentials_ok_def hash_def)

text \<open>
  Five wrong guesses at seconds 1 to 5; the right password one second before the lockout
  ends, and when it has ended.
\<close>

theorem lockout_after_five_failures_witness:
  "failure_count (counters provisioned ''alice'') = 0
   \<and> \<not> is_locked (counters provisioned ''alice'') 1
   \<and> \<not> credentials_ok provisioned ''alice'' ''guess''
   \<and> credentials_ok provisioned ''alice'' ''secret''
   \<and> fst (attempts provisioned ''alice'' five_wrong) = replicate 5 (Inl InvalidCredentials)
   \<and> fst (login (snd (attempts provisioned ''alice'' five_wrong)) ''alice'' ''secret'' 904 ''k6'')
       = Inl LockedOut
   \<and> fst (attempts (snd (attempts provisioned ''alice'' five_wrong)) ''alice''
            [(''secret'', 100, ''k6''), (''guess'', 904, ''k7'')])
       = [Inl LockedOut, Inl LockedOut]
   \<and> fst (login (snd (attempts provisioned ''alice'' five_wrong)) ''alice'' ''secret'' 905 ''k6'')
       = Inr ''k6''
   \<and> failure_count (counters (snd (login (snd (attempts provisioned ''alice'' five_wrong))
        ''alice'' ''secret'' 905 ''k6'')) ''alice'') = 0"
proof -
  have free: "\<not> is_locked (counters provisioned ''alice'') 1
      \<and> \<not> is_locked (counters provisioned ''alice'') 2
      \<and> \<not> is_locked (counters provisioned ''alice'') 3
      \<and> \<not> is_locked (counters provisioned ''alice'') 4
      \<and> \<not> is_locked (counters provisioned ''alice'') 5"
    by (simp add: provisioned_simps)
  have wrong: "\<not> credentials_ok provisioned ''alice'' ''guess''
      \<and> \<not> credentials_ok provisioned ''alice'' ''guess''
      \<and> \<not> credentials_ok provisioned ''alice'' ''guess''
      \<and> \<not> credentials_ok provisioned ''alice'' ''guess''
      \<and> \<not> credentials_ok provisioned ''alice'' ''guess''"
    by (simp add: provisioned_simps)
  have right: "credentials_ok provisioned ''alice'' ''secret''"
    by (simp add: provisioned_simps)
  note inst = lockout_after_five_failures
    [OF provisioned_simps(1) free wrong right five_wrong_def, where tok = "''k6''"
       and as = "[(''secret'', 100, ''k6''), (''guess'', 904, ''k7'')]"]
  from inst [where now = 904] inst [where now = 905] show ?thesis
    using right by (simp add: provisioned_simps)
qed


end
